theory Spec2Isabelle
  imports Main "HOL-Library.AList"
begin

section \<open>FrigadeProvider: API key validation and identity state\<close>

text \<open>
  Source: \<^verbatim>\<open>src/FrigadeNPSSurvey/index.tsx\<close>, the part that defines
  \<^verbatim>\<open>FrigadeProvider\<close>. JavaScript strings are modelled as \<^typ>\<open>string\<close>; \<open>length\<close>
  counts the characters the way \<^verbatim>\<open>String.prototype.length\<close> counts code units.
\<close>

subsection \<open>The platform's \<^verbatim>\<open>substring\<close>\<close>

text \<open>
  \<^verbatim>\<open>s.substring(a, b)\<close> for non-negative integer arguments: both indices are clamped to
  the length of the string, they are swapped when the first is the larger one, and the
  characters from the smaller index up to (not including) the larger one are returned.
\<close>

definition substring :: "string \<Rightarrow> nat \<Rightarrow> nat \<Rightarrow> string" where
  "substring s a b =
     (let a' = min a (length s); b' = min b (length s);
          from = min a' b'; to = max a' b'
      in take (to - from) (drop from s))"

subsection \<open>isValidApiKey\<close>

text \<open>
  \<^verbatim>\<open>
  function isValidApiKey(apiKey: string): boolean {
    return Boolean(apiKey && apiKey.length > 10 && apiKey.substring(0, 10) === 'api_public')
  }
  \<close>
  A string is truthy exactly when it is not empty.
\<close>

definition isValidApiKey :: "string \<Rightarrow> bool" where
  "isValidApiKey apiKey =
     (apiKey \<noteq> [] \<and> length apiKey > 10 \<and> substring apiKey 0 10 = ''api_public'')"

subsection \<open>Provider props and state\<close>

text \<open>
  The optional props \<^verbatim>\<open>userId?: string\<close> and \<^verbatim>\<open>organizationId?: string\<close> may be
  absent (\<^verbatim>\<open>undefined\<close>), and a JavaScript caller may pass \<^verbatim>\<open>null\<close>.
\<close>

datatype jsprop = Undefined | Null | Str string

fun truthy_prop :: "jsprop \<Rightarrow> bool" where
  "truthy_prop Undefined = False"
| "truthy_prop Null = False"
| "truthy_prop (Str s) = (s \<noteq> [])"

record FrigadeProviderProps =
  publicApiKey :: string
  userId :: jsprop
  organizationId :: jsprop

text \<open>
  The three \<^verbatim>\<open>useState\<close> cells that matter here; \<^verbatim>\<open>string | null\<close> is
  \<^typ>\<open>string option\<close> with \<^term>\<open>None\<close> for \<^verbatim>\<open>null\<close>.
\<close>

record FrigadeProviderState =
  userIdValue :: "string option"
  organizationIdValue :: "string option"
  shouldGracefullyDegrade :: bool

text \<open>\<^verbatim>\<open>useState<string | null>(!userId ? null : userId)\<close>\<close>

fun initialIdValue :: "jsprop \<Rightarrow> string option" where
  "initialIdValue (Str s) = (if s \<noteq> [] then Some s else None)"
| "initialIdValue Undefined = None"
| "initialIdValue Null = None"

definition initialState :: "FrigadeProviderProps \<Rightarrow> FrigadeProviderState" where
  "initialState props =
     \<lparr> userIdValue = initialIdValue (userId props),
       organizationIdValue = initialIdValue (organizationId props),
       shouldGracefullyDegrade = (\<not> isValidApiKey (publicApiKey props)) \<rparr>"

text \<open>
  \<^verbatim>\<open>useEffect(() => { if (userId) { setUserIdValue(userId) } }, [userId])\<close>
\<close>

fun userIdEffect :: "jsprop \<Rightarrow> FrigadeProviderState \<Rightarrow> FrigadeProviderState" where
  "userIdEffect (Str s) st = (if s \<noteq> [] then st\<lparr>userIdValue := Some s\<rparr> else st)"
| "userIdEffect Undefined st = st"
| "userIdEffect Null st = st"

text \<open>
  \<^verbatim>\<open>useEffect(() => { if (organizationId) { setOrganizationIdValue(organizationId) } },
  [organizationId])\<close>
\<close>

fun organizationIdEffect :: "jsprop \<Rightarrow> FrigadeProviderState \<Rightarrow> FrigadeProviderState" where
  "organizationIdEffect (Str s) st =
     (if s \<noteq> [] then st\<lparr>organizationIdValue := Some s\<rparr> else st)"
| "organizationIdEffect Undefined st = st"
| "organizationIdEffect Null st = st"

text \<open>
  The third effect, with dependencies \<^verbatim>\<open>[publicApiKey, setShouldGracefullyDegrade]\<close>:
  \<^verbatim>\<open>
  if (!isValidApiKey(publicApiKey)) {
    console.error(...); setShouldGracefullyDegrade(true); return
  } else { setShouldGracefullyDegrade(false) }
  \<close>
\<close>

definition apiKeyEffect :: "string \<Rightarrow> FrigadeProviderState \<Rightarrow> FrigadeProviderState" where
  "apiKeyEffect key st =
     (if \<not> isValidApiKey key then st\<lparr>shouldGracefullyDegrade := True\<rparr>
      else st\<lparr>shouldGracefullyDegrade := False\<rparr>)"

text \<open>
  Mounting runs every effect once after the first render. A later render with new props
  runs exactly the effects one of whose dependencies changed.
\<close>

definition FrigadeProvider_mount :: "FrigadeProviderProps \<Rightarrow> FrigadeProviderState" where
  "FrigadeProvider_mount props =
     apiKeyEffect (publicApiKey props)
       (organizationIdEffect (organizationId props)
         (userIdEffect (userId props) (initialState props)))"

definition FrigadeProvider_rerender ::
  "FrigadeProviderProps \<Rightarrow> FrigadeProviderProps \<Rightarrow> FrigadeProviderState \<Rightarrow> FrigadeProviderState"
where
  "FrigadeProvider_rerender old new st =
     (let st1 = (if userId new \<noteq> userId old then userIdEffect (userId new) st else st);
          st2 = (if organizationId new \<noteq> organizationId old
                 then organizationIdEffect (organizationId new) st1 else st1)
      in if publicApiKey new \<noteq> publicApiKey old then apiKeyEffect (publicApiKey new) st2 else st2)"

text \<open>The state after mounting with the first props and then rendering each later props.\<close>

fun renders :: "FrigadeProviderProps \<Rightarrow> FrigadeProviderState \<Rightarrow> FrigadeProviderProps list
  \<Rightarrow> FrigadeProviderProps \<times> FrigadeProviderState" where
  "renders p st [] = (p, st)"
| "renders p st (q # qs) = renders q (FrigadeProvider_rerender p q st) qs"

definition FrigadeProvider_run :: "FrigadeProviderProps \<Rightarrow> FrigadeProviderProps list
  \<Rightarrow> FrigadeProviderProps \<times> FrigadeProviderState" where
  "FrigadeProvider_run p qs = renders p (FrigadeProvider_mount p) qs"

section \<open>JavaScript values and the platform's JSON\<close>

text \<open>
  The values a form field hands to the step and the values \<^verbatim>\<open>JSON.parse\<close> returns. An
  object is the list of its own properties in insertion order, each key once. (JavaScript
  enumerates keys that look like array indices before the others; this changes the order
  of the list only, never the value under a key.) Numbers are the integers only.
\<close>

datatype jsvalue =
    JNull
  | JBool bool
  | JNum int
  | JStr string
  | JArr "jsvalue list"
  | JObj "(string \<times> jsvalue) list"

text \<open>Truthiness, as \<^verbatim>\<open>if (v)\<close> and \<^verbatim>\<open>v || w\<close> test it.\<close>

fun truthy :: "jsvalue \<Rightarrow> bool" where
  "truthy JNull = False"
| "truthy (JBool b) = b"
| "truthy (JNum n) = (n \<noteq> 0)"
| "truthy (JStr s) = (s \<noteq> [])"
| "truthy (JArr xs) = True"
| "truthy (JObj ps) = True"

text \<open>Decimal digits of a natural number, as \<^verbatim>\<open>String(n)\<close> prints them.\<close>

definition digit_char :: "nat \<Rightarrow> char" where
  "digit_char d = char_of (of_char (CHR ''0'') + d)"

fun show_nat :: "nat \<Rightarrow> string" where
  "show_nat n = (if n < 10 then [digit_char n] else show_nat (n div 10) @ [digit_char (n mod 10)])"

declare show_nat.simps [simp del]

definition show_int :: "int \<Rightarrow> string" where
  "show_int i = (if i < 0 then CHR ''-'' # show_nat (nat (- i)) else show_nat (nat i))"

text \<open>
  The own enumerable properties that the object spread \<^verbatim>\<open>{...v}\<close> copies: those of an
  object; the indices of an array; the indices of a string, each with a one-character
  string; nothing for \<^verbatim>\<open>null\<close>, a boolean or a number.
\<close>

fun spread :: "jsvalue \<Rightarrow> (string \<times> jsvalue) list" where
  "spread (JObj ps) = ps"
| "spread (JArr xs) = zip (map show_nat [0..<length xs]) xs"
| "spread (JStr s) = zip (map show_nat [0..<length s]) (map (\<lambda>c. JStr [c]) s)"
| "spread JNull = []"
| "spread (JBool b) = []"
| "spread (JNum n) = []"

text \<open>What the source can throw.\<close>

datatype error =
    SyntaxError   \<comment> \<open>\<^verbatim>\<open>JSON.parse\<close> on a text that is not JSON\<close>
  | TypeError     \<comment> \<open>a property read on \<^verbatim>\<open>undefined\<close>\<close>
  | ReferenceError  \<comment> \<open>a read of a global that is not declared\<close>
  | SecurityError   \<comment> \<open>a read of \<^verbatim>\<open>window.localStorage\<close> that the browser denies\<close>
  | Unsupported   \<comment> \<open>a JSON text outside the fragment that \<open>JSON_parse_model\<close> reads\<close>

section \<open>MultiInputStepType\<close>

text \<open>
  Source: \<^verbatim>\<open>src/components/Forms/MultiInputStepType/MultiInputStepType.tsx\<close>.
  \<^verbatim>\<open>JSON.parse\<close> and \<^verbatim>\<open>JSON.stringify\<close> belong to the platform, not to the repository:
  every function that calls one of them takes it as a parameter.
\<close>

text \<open>
  Modelled from the spec: the declarations of \<^verbatim>\<open>FormValidationError\<close> and
  \<^verbatim>\<open>FormInputType\<close> in \<^verbatim>\<open>FrigadeForm/types\<close> are not among the sources. The spec
  gives a validation error as "field identifier + message" and a form input as
  "identifier, kind tag, kind-specific configuration"; the component reads
  \<^verbatim>\<open>error.id\<close>, \<^verbatim>\<open>input.id\<close> and \<^verbatim>\<open>input.type\<close> only.
\<close>

record FormValidationError =
  id_error :: string
  message :: string

record FormInputType =
  id_input :: string
  type_input :: string

text \<open>
  The global \<^verbatim>\<open>window\<close> as the component finds it. Where no such global is declared
  (a render outside a browser), reading the name throws a ReferenceError. A declared
  \<^verbatim>\<open>window\<close> may hold a falsy value. Reading \<^verbatim>\<open>window.localStorage\<close> gives the store
  from keys to texts, or a falsy value where there is none, or throws a SecurityError
  where the browser denies the access (a sandboxed frame, blocked site data).
\<close>

datatype storage =
    Denied
  | NoStorage
  | Storage "string \<rightharpoonup> string"

datatype window_global =
    Undeclared
  | FalsyWindow
  | Window storage

text \<open>
  The condition \<^verbatim>\<open>window && window.localStorage\<close>: an exception, or the store when
  the condition is truthy, or \<^term>\<open>None\<close> when it is falsy.
\<close>

fun window_localStorage :: "window_global \<Rightarrow> error + (string \<rightharpoonup> string) option" where
  "window_localStorage Undeclared = Inl ReferenceError"
| "window_localStorage FalsyWindow = Inr None"
| "window_localStorage (Window Denied) = Inl SecurityError"
| "window_localStorage (Window NoStorage) = Inr None"
| "window_localStorage (Window (Storage ls)) = Inr (Some ls)"

text \<open>
  The state the component reads and writes: its two \<^verbatim>\<open>useState\<close> cells, the value last
  published through \<^verbatim>\<open>setCanContinue\<close>, the arguments of the \<^verbatim>\<open>onSaveData\<close> calls so
  far (oldest first), and the window.
\<close>

record MultiInput =
  allFormData :: jsvalue
  formValidationErrors :: "FormValidationError list"
  canContinue :: bool
  onSaveData_calls :: "jsvalue list"
  window :: window_global

text \<open>\<^verbatim>\<open>`frigade-multiInputStepTypeData-${stepData.id}`\<close>\<close>

definition getLocalStorageKey :: "string \<Rightarrow> string" where
  "getLocalStorageKey stepId = ''frigade-multiInputStepTypeData-'' @ stepId"

text \<open>
  \<^verbatim>\<open>
  function loadFromLocalStorage() {
    if (window && window.localStorage) {
      const data = window.localStorage.getItem(getLocalStorageKey())
      if (data) { return JSON.parse(data) }
    }
    return {}
  }
  \<close>
  \<^verbatim>\<open>getItem\<close> returns \<^verbatim>\<open>null\<close> for a key without entry; the empty text is falsy.
  An exception of the condition or of \<^verbatim>\<open>JSON.parse\<close> leaves the function.
\<close>

definition loadFromLocalStorage ::
  "(string \<Rightarrow> error + jsvalue) \<Rightarrow> window_global \<Rightarrow> string \<Rightarrow> error + jsvalue" where
  "loadFromLocalStorage JSON_parse win stepId =
     (case window_localStorage win of
        Inl e \<Rightarrow> Inl e
      | Inr None \<Rightarrow> Inr (JObj [])
      | Inr (Some ls) \<Rightarrow>
          (case ls (getLocalStorageKey stepId) of
             None \<Rightarrow> Inr (JObj [])
           | Some data \<Rightarrow> if data \<noteq> [] then JSON_parse data else Inr (JObj [])))"

text \<open>
  \<^verbatim>\<open>useEffect(() => { setCanContinue(formValidationErrors.length === 0) },
  [formValidationErrors, setCanContinue])\<close>
\<close>

definition canContinueEffect :: "MultiInput \<Rightarrow> MultiInput" where
  "canContinueEffect st = st\<lparr>canContinue := (length (formValidationErrors st) = 0)\<rparr>"

text \<open>
  The initial value of the first state cell, \<^verbatim>\<open>useState(loadFromLocalStorage() || {})\<close>.
  An exception of \<^verbatim>\<open>loadFromLocalStorage\<close> leaves the initialiser and the render.
\<close>

definition allFormData_initial ::
  "(string \<Rightarrow> error + jsvalue) \<Rightarrow> window_global \<Rightarrow> string \<Rightarrow> error + jsvalue" where
  "allFormData_initial JSON_parse win stepId =
     (case loadFromLocalStorage JSON_parse win stepId of
        Inl e \<Rightarrow> Inl e
      | Inr v \<Rightarrow> Inr (if truthy v then v else JObj []))"

text \<open>
  The first render and the effect after it; the second cell is
  \<^verbatim>\<open>useState<FormValidationError[]>([])\<close>. The arguments \<open>c0\<close> and \<open>win\<close> are the
  parent's \<^verbatim>\<open>canContinue\<close> and the window at that moment.
\<close>

definition MultiInputStepType_mount ::
  "(string \<Rightarrow> error + jsvalue) \<Rightarrow> window_global \<Rightarrow> string \<Rightarrow> bool \<Rightarrow> error + MultiInput" where
  "MultiInputStepType_mount JSON_parse win stepId c0 =
     (case allFormData_initial JSON_parse win stepId of
        Inl e \<Rightarrow> Inl e
      | Inr v \<Rightarrow>
          Inr (canContinueEffect
                 \<lparr> allFormData = v,
                   formValidationErrors = [],
                   canContinue = c0,
                   onSaveData_calls = [],
                   window = win \<rparr>))"

text \<open>
  \<^verbatim>\<open>
  function saveDataFromInputs(input: FormInputType, data: object) {
    const newData = { ...allFormData, [input.id]: data }
    setAllFormData(newData)
    onSaveData(newData)
    if (window && window.localStorage) {
      window.localStorage.setItem(getLocalStorageKey(), JSON.stringify(newData))
    }
  }
  \<close>
  The function is a closure of one render: \<^verbatim>\<open>allFormData\<close> in its body is the value
  that the state cell had in that render, the argument \<open>allFormData_seen\<close> here, whatever
  the cell holds when the function runs. \<^verbatim>\<open>setAllFormData\<close> gets the new value itself,
  not an updater of the previous one. A computed key that the spread already copied keeps
  its place and takes the new value; a new key goes to the end. The storage is a map
  without quota: \<^verbatim>\<open>setItem\<close> always succeeds.

  The result is the state after the call and the exception that left the function, if
  any: the condition on the window is evaluated after \<^verbatim>\<open>setAllFormData\<close> and
  \<^verbatim>\<open>onSaveData\<close>, whose effects stay.
\<close>

definition saveDataFromInputs ::
  "(jsvalue \<Rightarrow> string) \<Rightarrow> string \<Rightarrow> jsvalue \<Rightarrow> FormInputType \<Rightarrow> jsvalue \<Rightarrow> MultiInput
   \<Rightarrow> MultiInput \<times> error option" where
  "saveDataFromInputs JSON_stringify stepId allFormData_seen input data st =
     (let newData = JObj (AList.update (id_input input) data (spread allFormData_seen));
          st1 = st\<lparr> allFormData := newData,
                    onSaveData_calls := onSaveData_calls st @ [newData] \<rparr>
      in case window_localStorage (window st) of
           Inl e \<Rightarrow> (st1, Some e)
         | Inr None \<Rightarrow> (st1, None)
         | Inr (Some ls) \<Rightarrow>
             (st1\<lparr> window :=
                     Window (Storage (ls(getLocalStorageKey stepId \<mapsto> JSON_stringify newData))) \<rparr>,
              None))"

text \<open>
  The updater that a field's \<^verbatim>\<open>setFormValidationErrors(errors)\<close> hands to React:
  \<^verbatim>\<open>
  (prev) => {
    if (errors.length === 0) { return prev.filter((error) => error.id !== input.id) }
    return [...prev, ...errors]
  }
  \<close>
\<close>

definition setFormValidationErrors_updater ::
  "FormInputType \<Rightarrow> FormValidationError list \<Rightarrow> FormValidationError list
   \<Rightarrow> FormValidationError list" where
  "setFormValidationErrors_updater input errors prev =
     (if length errors = 0 then filter (\<lambda>error. id_error error \<noteq> id_input input) prev
      else prev @ errors)"

text \<open>
  A field reports its errors: the updater gives the next error list, and the effect that
  depends on it runs after the render.
\<close>

definition setFormValidationErrors ::
  "FormInputType \<Rightarrow> FormValidationError list \<Rightarrow> MultiInput \<Rightarrow> MultiInput" where
  "setFormValidationErrors input errors st =
     canContinueEffect
       (st\<lparr>formValidationErrors :=
             setFormValidationErrors_updater input errors (formValidationErrors st)\<rparr>)"

text \<open>
  What the fields of a mounted step can do, and a run of such interactions, each one
  handled by the closures of a render of the state it meets. An exception of the save
  handler goes to the field that called it; the state it set before stays.
\<close>

datatype interaction =
    OnSaveInputData FormInputType jsvalue
  | SetFormValidationErrors FormInputType "FormValidationError list"

fun interact :: "(jsvalue \<Rightarrow> string) \<Rightarrow> string \<Rightarrow> MultiInput \<Rightarrow> interaction \<Rightarrow> MultiInput" where
  "interact JSON_stringify stepId st (OnSaveInputData input data) =
     fst (saveDataFromInputs JSON_stringify stepId (allFormData st) input data st)"
| "interact JSON_stringify stepId st (SetFormValidationErrors input errors) =
     setFormValidationErrors input errors st"

definition interactions ::
  "(jsvalue \<Rightarrow> string) \<Rightarrow> string \<Rightarrow> MultiInput \<Rightarrow> interaction list \<Rightarrow> MultiInput" where
  "interactions JSON_stringify stepId st evs = foldl (interact JSON_stringify stepId) st evs"

text \<open>
  Observations for the theorems: the value of an own property of the aggregate; the text
  stored under a key (none when no storage can be read or it has no entry); whether there
  is a storage to read and write; whether the condition \<^verbatim>\<open>window && window.localStorage\<close>
  is falsy.
\<close>

definition property :: "jsvalue \<Rightarrow> string \<Rightarrow> jsvalue option" where
  "property v k = map_of (spread v) k"

definition getItem :: "window_global \<Rightarrow> string \<Rightarrow> string option" where
  "getItem win k = (case window_localStorage win of Inr (Some ls) \<Rightarrow> ls k | _ \<Rightarrow> None)"

definition storage_available :: "window_global \<Rightarrow> bool" where
  "storage_available win = (case window_localStorage win of Inr (Some ls) \<Rightarrow> True | _ \<Rightarrow> False)"

definition storage_falsy :: "window_global \<Rightarrow> bool" where
  "storage_falsy win = (window_localStorage win = Inr None)"

section \<open>A model of the platform's JSON for concrete runs\<close>

text \<open>
  The theorems about the component hold for every \<^verbatim>\<open>JSON.parse\<close> and
  \<^verbatim>\<open>JSON.stringify\<close>. Concrete runs need concrete ones: \<open>JSON_stringify_model\<close> prints
  a value the way \<^verbatim>\<open>JSON.stringify\<close> does, and \<open>JSON_parse_model\<close> reads the JSON
  grammar except for fractions and exponents in numbers and for unicode escapes above
  00ff, where it answers \<^term>\<open>Unsupported\<close>. A repeated key keeps its first place and
  takes its last value. The parser descends with fuel, the length of the text plus one;
  running out of fuel is answered with \<^term>\<open>Unsupported\<close> as well.
\<close>

definition dquote :: char where "dquote = CHR 0x22"
definition backslash :: char where "backslash = CHR 0x5C"

definition hex_digit :: "nat \<Rightarrow> char" where
  "hex_digit d = (if d < 10 then digit_char d else char_of (of_char (CHR ''a'') + (d - 10)))"

definition escape_char :: "char \<Rightarrow> string" where
  "escape_char c =
     (if c = dquote then [backslash, dquote]
      else if c = backslash then [backslash, backslash]
      else if c = CHR 0x08 then [backslash, CHR ''b'']
      else if c = CHR 0x09 then [backslash, CHR ''t'']
      else if c = CHR 0x0A then [backslash, CHR ''n'']
      else if c = CHR 0x0C then [backslash, CHR ''f'']
      else if c = CHR 0x0D then [backslash, CHR ''r'']
      else if (of_char c :: nat) < 0x20
        then [backslash, CHR ''u'', CHR ''0'', CHR ''0'',
              hex_digit (of_char c div 16), hex_digit (of_char c mod 16)]
      else [c])"

definition quote :: "string \<Rightarrow> string" where
  "quote s = dquote # concat (map escape_char s) @ [dquote]"

fun join :: "string \<Rightarrow> string list \<Rightarrow> string" where
  "join sep [] = []"
| "join sep [x] = x"
| "join sep (x # y # ys) = x @ sep @ join sep (y # ys)"

fun JSON_stringify_model :: "jsvalue \<Rightarrow> string" where
  "JSON_stringify_model JNull = ''null''"
| "JSON_stringify_model (JBool b) = (if b then ''true'' else ''false'')"
| "JSON_stringify_model (JNum n) = show_int n"
| "JSON_stringify_model (JStr s) = quote s"
| "JSON_stringify_model (JArr xs) = ''['' @ join '','' (map JSON_stringify_model xs) @ '']''"
| "JSON_stringify_model (JObj ps) =
     ''{'' @ join '','' (map (\<lambda>(k, v). quote k @ '':'' @ JSON_stringify_model v) ps) @ ''}''"


definition is_ws :: "char \<Rightarrow> bool" where
  "is_ws c = (c = CHR 0x20 \<or> c = CHR 0x09 \<or> c = CHR 0x0A \<or> c = CHR 0x0D)"

definition skip_ws :: "string \<Rightarrow> string" where
  "skip_ws s = dropWhile is_ws s"

definition is_digit :: "char \<Rightarrow> bool" where
  "is_digit c = (of_char (CHR ''0'') \<le> (of_char c :: nat) \<and> (of_char c :: nat) \<le> of_char (CHR ''9''))"

definition digit_val :: "char \<Rightarrow> nat" where
  "digit_val c = of_char c - of_char (CHR ''0'')"

definition hex_val :: "char \<Rightarrow> nat option" where
  "hex_val c =
     (let n = (of_char c :: nat) in
      if is_digit c then Some (digit_val c)
      else if of_char (CHR ''a'') \<le> n \<and> n \<le> of_char (CHR ''f'') then Some (n - of_char (CHR ''a'') + 10)
      else if of_char (CHR ''A'') \<le> n \<and> n \<le> of_char (CHR ''F'') then Some (n - of_char (CHR ''A'') + 10)
      else None)"

definition unescape :: "char \<Rightarrow> char option" where
  "unescape e =
     (if e = dquote then Some dquote
      else if e = backslash then Some backslash
      else if e = CHR ''/'' then Some (CHR ''/'')
      else if e = CHR ''b'' then Some (CHR 0x08)
      else if e = CHR ''t'' then Some (CHR 0x09)
      else if e = CHR ''n'' then Some (CHR 0x0A)
      else if e = CHR ''f'' then Some (CHR 0x0C)
      else if e = CHR ''r'' then Some (CHR 0x0D)
      else None)"

definition unicode_escape :: "char \<Rightarrow> char \<Rightarrow> char \<Rightarrow> char \<Rightarrow> error + char" where
  "unicode_escape a b c d =
     (case (hex_val a, hex_val b, hex_val c, hex_val d) of
        (Some x3, Some x2, Some x1, Some x0) \<Rightarrow>
          if x3 = 0 \<and> x2 = 0 then Inr (char_of (16 * x1 + x0)) else Inl Unsupported
      | _ \<Rightarrow> Inl SyntaxError)"

fun parse_string_chars :: "string \<Rightarrow> error + string \<times> string" where
  "parse_string_chars [] = Inl SyntaxError"
| "parse_string_chars (c # cs) =
     (if c = dquote then Inr ([], cs)
      else if c = backslash then
        (case cs of
           [] \<Rightarrow> Inl SyntaxError
         | e # r \<Rightarrow>
             if e = CHR ''u'' then
               (case r of
                  a # b # c' # d # r' \<Rightarrow>
                    (case unicode_escape a b c' d of
                       Inl err \<Rightarrow> Inl err
                     | Inr u \<Rightarrow>
                         (case parse_string_chars r' of
                            Inl err \<Rightarrow> Inl err
                          | Inr (s, rest) \<Rightarrow> Inr (u # s, rest)))
                | _ \<Rightarrow> Inl SyntaxError)
             else
               (case unescape e of
                  None \<Rightarrow> Inl SyntaxError
                | Some u \<Rightarrow>
                    (case parse_string_chars r of
                       Inl err \<Rightarrow> Inl err
                     | Inr (s, rest) \<Rightarrow> Inr (u # s, rest))))
      else if (of_char c :: nat) < 0x20 then Inl SyntaxError
      else
        (case parse_string_chars cs of
           Inl err \<Rightarrow> Inl err
         | Inr (s, rest) \<Rightarrow> Inr (c # s, rest)))"

definition parse_number :: "string \<Rightarrow> error + jsvalue \<times> string" where
  "parse_number s =
     (let neg = (take 1 s = ''-'');
          s1 = (if neg then drop 1 s else s);
          ds = takeWhile is_digit s1;
          rest = dropWhile is_digit s1;
          n = foldl (\<lambda>a c. 10 * a + digit_val c) 0 ds
      in if ds = [] then Inl SyntaxError
         else if 1 < length ds \<and> hd ds = CHR ''0'' then Inl SyntaxError
         else if take 1 rest = ''.'' \<or> take 1 rest = ''e'' \<or> take 1 rest = ''E'' then Inl Unsupported
         else Inr (JNum (if neg then - int n else int n), rest))"

fun parse_value :: "nat \<Rightarrow> string \<Rightarrow> error + jsvalue \<times> string"
and parse_elements :: "nat \<Rightarrow> jsvalue list \<Rightarrow> string \<Rightarrow> error + jsvalue \<times> string"
and parse_members :: "nat \<Rightarrow> (string \<times> jsvalue) list \<Rightarrow> string \<Rightarrow> error + jsvalue \<times> string"
where
  "parse_value 0 s = Inl Unsupported"
| "parse_value (Suc fuel) s =
     (if take 4 s = ''null'' then Inr (JNull, drop 4 s)
      else if take 4 s = ''true'' then Inr (JBool True, drop 4 s)
      else if take 5 s = ''false'' then Inr (JBool False, drop 5 s)
      else if take 1 s = [dquote] then
        (case parse_string_chars (drop 1 s) of
           Inl err \<Rightarrow> Inl err
         | Inr (str, rest) \<Rightarrow> Inr (JStr str, rest))
      else if take 1 s = ''['' then
        (let r = skip_ws (drop 1 s)
         in if take 1 r = '']'' then Inr (JArr [], drop 1 r) else parse_elements fuel [] r)
      else if take 1 s = ''{'' then
        (let r = skip_ws (drop 1 s)
         in if take 1 r = ''}'' then Inr (JObj [], drop 1 r) else parse_members fuel [] r)
      else parse_number s)"
| "parse_elements 0 acc s = Inl Unsupported"
| "parse_elements (Suc fuel) acc s =
     (case parse_value fuel s of
        Inl err \<Rightarrow> Inl err
      | Inr (v, rest) \<Rightarrow>
          (let r = skip_ws rest
           in if take 1 r = '','' then parse_elements fuel (acc @ [v]) (skip_ws (drop 1 r))
              else if take 1 r = '']'' then Inr (JArr (acc @ [v]), drop 1 r)
              else Inl SyntaxError))"
| "parse_members 0 acc s = Inl Unsupported"
| "parse_members (Suc fuel) acc s =
     (if take 1 s \<noteq> [dquote] then Inl SyntaxError
      else
        (case parse_string_chars (drop 1 s) of
           Inl err \<Rightarrow> Inl err
         | Inr (k, rest) \<Rightarrow>
             (let r = skip_ws rest
              in if take 1 r \<noteq> '':'' then Inl SyntaxError
                 else
                   (case parse_value fuel (skip_ws (drop 1 r)) of
                      Inl err \<Rightarrow> Inl err
                    | Inr (v, rest') \<Rightarrow>
                        (let r' = skip_ws rest'
                         in if take 1 r' = '','' then
                              parse_members fuel (AList.update k v acc) (skip_ws (drop 1 r'))
                            else if take 1 r' = ''}'' then
                              Inr (JObj (AList.update k v acc), drop 1 r')
                            else Inl SyntaxError)))))"

definition JSON_parse_model :: "string \<Rightarrow> error + jsvalue" where
  "JSON_parse_model text =
     (case parse_value (Suc (length text)) (skip_ws text) of
        Inl err \<Rightarrow> Inl err
      | Inr (v, rest) \<Rightarrow> if skip_ws rest = [] then Inr v else Inl SyntaxError)"

section \<open>FrigadeNPSSurvey\<close>

text \<open>
  Source: \<^verbatim>\<open>src/FrigadeNPSSurvey/index.tsx\<close>, the part that defines
  \<^verbatim>\<open>FrigadeNPSSurvey\<close>. The hooks \<^verbatim>\<open>useFlows\<close> and \<^verbatim>\<open>useFlowOpens\<close> and the
  constant \<^verbatim>\<open>COMPLETED_FLOW\<close> are imported from files that are not among the sources:
  the component is modelled over any values of them. The appearance, the class names and
  the effect that forwards \<^verbatim>\<open>customVariables\<close> do not decide what is rendered or what a
  click does, and are left out.
\<close>

text \<open>
  Modelled from the spec: the declaration of \<^verbatim>\<open>StepData\<close> in \<^verbatim>\<open>types\<close> is not among
  the sources. The spec gives a step as "identifier, title/subtitle, button labels"; the
  component reads exactly these five properties.
\<close>

record StepData =
  id_step :: string
  title :: "string option"
  subtitle :: "string option"
  primaryButtonTitle :: "string option"
  secondaryButtonTitle :: "string option"

text \<open>What \<^verbatim>\<open>useFlows()\<close> and \<^verbatim>\<open>useFlowOpens()\<close> answer during one render.\<close>

record 'flow useFlows =
  isLoading :: bool
  getFlow :: "string \<Rightarrow> 'flow option"
  targetingLogicShouldHideFlow :: "'flow \<Rightarrow> bool"
  getFlowStatus :: "string \<Rightarrow> string"
  getNumberOfStepsCompleted :: "string \<Rightarrow> nat"
  getFlowSteps :: "string \<Rightarrow> StepData list"
  getCurrentStepIndex :: "string \<Rightarrow> nat"

record useFlowOpens =
  hasOpenModals :: bool
  shouldKeepCompletedFlowOpenDuringSession :: "string \<Rightarrow> bool"

text \<open>
  The props the component reads. For the two optional callbacks the model keeps whether
  the caller supplied one.
\<close>

record FrigadeNPSSurveyProps =
  flowId :: string
  onDismiss :: bool
  onButtonClick :: bool

text \<open>The two \<^verbatim>\<open>React.useState\<close> cells.\<close>

record FrigadeNPSSurveyState =
  score :: "nat option"
  feedbackText :: string

subsection \<open>Click handlers as traces\<close>

text \<open>
  A handler is an \<^verbatim>\<open>async\<close> function. Its run is the list of what it does, in program
  order. \<^verbatim>\<open>await f(x)\<close> invokes the remote call and suspends the handler until the
  promise settles: fulfilled, the handler goes on; rejected, the rejection leaves the
  handler and nothing after the \<^verbatim>\<open>await\<close> runs. Whether a call is fulfilled is up to
  the collaborator, so a handler is a function of that.
\<close>

datatype payload =
    Score nat              \<comment> \<open>\<^verbatim>\<open>{ score: n }\<close>\<close>
  | FeedbackText string    \<comment> \<open>\<^verbatim>\<open>{ feedbackText }\<close>\<close>

datatype call =
    MarkStepCompleted string string payload
  | MarkFlowCompleted string

datatype event =
    SetKeepCompletedFlowOpenDuringSession string
  | SetScore nat
  | Invoked call
  | Fulfilled call
  | Rejected call
  | OnButtonClick StepData nat string
  | OnDismiss

type_synonym handler = "(call \<Rightarrow> bool) \<Rightarrow> event list"

definition await :: "(call \<Rightarrow> bool) \<Rightarrow> call \<Rightarrow> event list \<Rightarrow> event list" where
  "await fulfils c rest = Invoked c # (if fulfils c then Fulfilled c # rest else [Rejected c])"

text \<open>
  The number button \<open>i\<close> of \<^verbatim>\<open>Array.from(Array(10).keys())\<close>:
  \<^verbatim>\<open>
  onClick={async () => {
    setKeepCompletedFlowOpenDuringSession(flowId)
    setScore(i + 1)
    await markStepCompleted(flowId, currentStep.id, { score: i + 1 })
  }}
  \<close>
\<close>

definition numberButton_onClick :: "FrigadeNPSSurveyProps \<Rightarrow> StepData \<Rightarrow> nat \<Rightarrow> handler" where
  "numberButton_onClick props currentStep i fulfils =
     SetKeepCompletedFlowOpenDuringSession (flowId props) #
     SetScore (i + 1) #
     await fulfils (MarkStepCompleted (flowId props) (id_step currentStep) (Score (i + 1))) []"

text \<open>
  The first button of \<^verbatim>\<open>getScoreReason\<close> (titled \<^verbatim>\<open>'Skip'\<close> by default, with the
  \<^verbatim>\<open>secondary\<close> style):
  \<^verbatim>\<open>
  onClick={async () => {
    await markFlowCompleted(flowId)
    if (onButtonClick) { onButtonClick(currentStep, 1, 'primary') }
  }}
  \<close>
\<close>

definition skip_onClick :: "FrigadeNPSSurveyProps \<Rightarrow> StepData \<Rightarrow> handler" where
  "skip_onClick props currentStep fulfils =
     await fulfils (MarkFlowCompleted (flowId props))
       (if onButtonClick props then [OnButtonClick currentStep 1 ''primary''] else [])"

text \<open>
  The second button (titled \<^verbatim>\<open>'Submit'\<close> by default):
  \<^verbatim>\<open>
  onClick={async () => {
    await markStepCompleted(flowId, currentStep.id, { feedbackText })
    await markFlowCompleted(flowId)
    if (onButtonClick) { onButtonClick(currentStep, 1, 'primary') }
  }}
  \<close>
\<close>

definition submit_onClick :: "FrigadeNPSSurveyProps \<Rightarrow> StepData \<Rightarrow> string \<Rightarrow> handler" where
  "submit_onClick props currentStep text fulfils =
     await fulfils (MarkStepCompleted (flowId props) (id_step currentStep) (FeedbackText text))
       (await fulfils (MarkFlowCompleted (flowId props))
          (if onButtonClick props then [OnButtonClick currentStep 1 ''primary''] else []))"

text \<open>
  The dismiss button:
  \<^verbatim>\<open>
  onClick={async () => {
    await markFlowCompleted(flowId)
    if (onDismiss) { onDismiss() }
  }}
  \<close>
\<close>

definition dismiss_onClick :: "FrigadeNPSSurveyProps \<Rightarrow> handler" where
  "dismiss_onClick props fulfils =
     await fulfils (MarkFlowCompleted (flowId props)) (if onDismiss props then [OnDismiss] else [])"

subsection \<open>What is rendered\<close>

record NPSNumberButton =
  key :: nat
  label :: nat
  selected :: bool
  onClick :: handler

record ScoreChooser =
  chooser_title :: "string option"
  chooser_subtitle :: "string option"
  numberButtons :: "NPSNumberButton list"

record Button =
  button_title :: string
  secondary :: bool
  button_onClick :: handler

record ScoreReason =
  textArea_value :: string
  reasonButtons :: "Button list"

record Survey =
  dismissButton_onClick :: handler
  scoreChooser :: "ScoreChooser option"
  scoreReason :: "ScoreReason option"

text \<open>\<^verbatim>\<open>t || d\<close> for an optional title: an absent or empty title gives the default.\<close>

fun or_default :: "string option \<Rightarrow> string \<Rightarrow> string" where
  "or_default None d = d"
| "or_default (Some t) d = (if t \<noteq> [] then t else d)"

text \<open>
  \<^verbatim>\<open>getScoreChooser\<close>: the title, and
  \<^verbatim>\<open>Array.from(Array(10).keys()).map((i) => <NPSNumberButton selected={score === i + 1}
  key={i} onClick=...>{i + 1}</NPSNumberButton>)\<close>.
\<close>

definition getScoreChooser ::
  "FrigadeNPSSurveyProps \<Rightarrow> FrigadeNPSSurveyState \<Rightarrow> StepData \<Rightarrow> ScoreChooser" where
  "getScoreChooser props st currentStep =
     \<lparr> chooser_title = title currentStep,
       chooser_subtitle = subtitle currentStep,
       numberButtons =
         map (\<lambda>i. \<lparr> key = i, label = i + 1, selected = (score st = Some (i + 1)),
                    onClick = numberButton_onClick props currentStep i \<rparr>)
             [0..<10] \<rparr>"

definition getScoreReason ::
  "FrigadeNPSSurveyProps \<Rightarrow> FrigadeNPSSurveyState \<Rightarrow> StepData \<Rightarrow> ScoreReason" where
  "getScoreReason props st currentStep =
     \<lparr> textArea_value = feedbackText st,
       reasonButtons =
         [ \<lparr> button_title = or_default (secondaryButtonTitle currentStep) ''Skip'',
             secondary = True,
             button_onClick = skip_onClick props currentStep \<rparr>,
           \<lparr> button_title = or_default (primaryButtonTitle currentStep) ''Submit'',
             secondary = False,
             button_onClick = submit_onClick props currentStep (feedbackText st) \<rparr> ] \<rparr>"

text \<open>
  \<^verbatim>\<open>steps[getCurrentStepIndex(flowId)]\<close> is \<^verbatim>\<open>undefined\<close> out of range, and reading a
  property of it in \<^verbatim>\<open>getScoreChooser\<close> or \<^verbatim>\<open>getScoreReason\<close> throws a TypeError.
\<close>

definition currentStep_of :: "'flow useFlows \<Rightarrow> string \<Rightarrow> StepData option" where
  "currentStep_of flows fid =
     (let steps = getFlowSteps flows fid; i = getCurrentStepIndex flows fid
      in if i < length steps then Some (steps ! i) else None)"

text \<open>
  The component. \<^term>\<open>Inr None\<close> is \<^verbatim>\<open>return null\<close>: nothing is rendered. The guards
  come in the order of the source; after them
  \<^verbatim>\<open>
  {getNumberOfStepsCompleted(flowId) == 0 && getScoreChooser()}
  {getNumberOfStepsCompleted(flowId) == 1 && getScoreReason()}
  \<close>
\<close>

definition FrigadeNPSSurvey ::
  "string \<Rightarrow> FrigadeNPSSurveyProps \<Rightarrow> 'flow useFlows \<Rightarrow> useFlowOpens \<Rightarrow> FrigadeNPSSurveyState
   \<Rightarrow> error + Survey option" where
  "FrigadeNPSSurvey COMPLETED_FLOW props flows opens st =
     (if isLoading flows then Inr None
      else
        (case getFlow flows (flowId props) of
           None \<Rightarrow> Inr None
         | Some flow \<Rightarrow>
             if targetingLogicShouldHideFlow flows flow then Inr None
             else if getFlowStatus flows (flowId props) = COMPLETED_FLOW then Inr None
             else if getNumberOfStepsCompleted flows (flowId props) = 1 \<and>
                     \<not> shouldKeepCompletedFlowOpenDuringSession opens (flowId props)
               then Inr None
             else if hasOpenModals opens then Inr None
             else
               (let n = getNumberOfStepsCompleted flows (flowId props)
                in if n = 0 \<or> n = 1 then
                     (case currentStep_of flows (flowId props) of
                        None \<Rightarrow> Inl TypeError
                      | Some currentStep \<Rightarrow>
                          Inr (Some
                            \<lparr> dismissButton_onClick = dismiss_onClick props,
                              scoreChooser =
                                (if n = 0 then Some (getScoreChooser props st currentStep) else None),
                              scoreReason =
                                (if n = 1 then Some (getScoreReason props st currentStep) else None) \<rparr>))
                   else
                     Inr (Some
                       \<lparr> dismissButton_onClick = dismiss_onClick props,
                         scoreChooser = None,
                         scoreReason = None \<rparr>))))"

text \<open>
  Order in a trace: \<open>precedes a b t\<close> says that \<open>b\<close> does not occur in \<open>t\<close> before the
  first \<open>a\<close>.
\<close>

fun precedes :: "'a \<Rightarrow> 'a \<Rightarrow> 'a list \<Rightarrow> bool" where
  "precedes a b [] = True"
| "precedes a b (x # xs) = (if x = a then True else if x = b then False else precedes a b xs)"

fun is_OnButtonClick :: "event \<Rightarrow> bool" where
  "is_OnButtonClick (OnButtonClick s i k) = True"
| "is_OnButtonClick _ = False"

section \<open>Concrete values for the runs below\<close>

definition key_props :: "string \<Rightarrow> FrigadeProviderProps" where
  "key_props k = \<lparr> publicApiKey = k, userId = Undefined, organizationId = Undefined \<rparr>"

definition id_props :: "jsprop \<Rightarrow> jsprop \<Rightarrow> FrigadeProviderProps" where
  "id_props u g = \<lparr> publicApiKey = ''api_public_abc'', userId = u, organizationId = g \<rparr>"

definition signed_in :: FrigadeProviderState where
  "signed_in = \<lparr> userIdValue = Some ''user-1'', organizationIdValue = Some ''org-1'',
                 shouldGracefullyDegrade = False \<rparr>"

definition field_A :: FormInputType where
  "field_A = \<lparr> id_input = ''A'', type_input = ''text'' \<rparr>"

definition field_B :: FormInputType where
  "field_B = \<lparr> id_input = ''B'', type_input = ''multipleChoice'' \<rparr>"

definition A_required :: FormValidationError where
  "A_required = \<lparr> id_error = ''A'', message = ''required'' \<rparr>"

definition A_too_short :: FormValidationError where
  "A_too_short = \<lparr> id_error = ''A'', message = ''too short'' \<rparr>"

definition B_required :: FormValidationError where
  "B_required = \<lparr> id_error = ''B'', message = ''required'' \<rparr>"

definition empty_storage :: window_global where
  "empty_storage = Window (Storage Map.empty)"

definition storage_with :: "string \<Rightarrow> string \<Rightarrow> window_global" where
  "storage_with k v = Window (Storage [k \<mapsto> v])"

definition fresh_step :: MultiInput where
  "fresh_step = \<lparr> allFormData = JObj [], formValidationErrors = [], canContinue = True,
                  onSaveData_calls = [], window = empty_storage \<rparr>"

definition step_with_errors :: "FormValidationError list \<Rightarrow> MultiInput" where
  "step_with_errors es = \<lparr> allFormData = JObj [], formValidationErrors = es,
                           canContinue = (es = []), onSaveData_calls = [], window = empty_storage \<rparr>"

definition nps_step :: StepData where
  "nps_step = \<lparr> id_step = ''nps-score'', title = Some ''How likely are you to recommend us?'',
                subtitle = None, primaryButtonTitle = None, secondaryButtonTitle = None \<rparr>"

definition nps_flows :: "string \<Rightarrow> nat \<Rightarrow> unit useFlows" where
  "nps_flows status n =
     \<lparr> isLoading = False,
       getFlow = (\<lambda>fid. if fid = ''flow_nps'' then Some () else None),
       targetingLogicShouldHideFlow = (\<lambda>flow. False),
       getFlowStatus = (\<lambda>fid. status),
       getNumberOfStepsCompleted = (\<lambda>fid. n),
       getFlowSteps = (\<lambda>fid. [nps_step]),
       getCurrentStepIndex = (\<lambda>fid. 0) \<rparr>"

definition nps_opens :: "bool \<Rightarrow> useFlowOpens" where
  "nps_opens keep =
     \<lparr> hasOpenModals = False, shouldKeepCompletedFlowOpenDuringSession = (\<lambda>fid. keep) \<rparr>"

definition nps_props :: FrigadeNPSSurveyProps where
  "nps_props = \<lparr> flowId = ''flow_nps'', onDismiss = False, onButtonClick = True \<rparr>"

definition nps_state :: FrigadeNPSSurveyState where
  "nps_state = \<lparr> score = None, feedbackText = ''great'' \<rparr>"

definition all_fulfilled :: "call \<Rightarrow> bool" where
  "all_fulfilled c = True"

section \<open>FrigadeProvider: theorems\<close>

lemma substring_0_10: "substring s 0 10 = take 10 s"
  by (simp add: substring_def Let_def min_def)

lemma isValidApiKey_iff:
  "isValidApiKey k \<longleftrightarrow> k \<noteq> [] \<and> 10 < length k \<and> take 10 k = ''api_public''"
  by (simp add: isValidApiKey_def substring_0_10)

lemma userIdEffect_degrade [simp]:
  "shouldGracefullyDegrade (userIdEffect p st) = shouldGracefullyDegrade st"
  by (cases p) auto

lemma organizationIdEffect_degrade [simp]:
  "shouldGracefullyDegrade (organizationIdEffect p st) = shouldGracefullyDegrade st"
  by (cases p) auto

lemma apiKeyEffect_degrade [simp]:
  "shouldGracefullyDegrade (apiKeyEffect k st) = (\<not> isValidApiKey k)"
  by (simp add: apiKeyEffect_def)

lemma mount_degrade:
  "shouldGracefullyDegrade (FrigadeProvider_mount p) = (\<not> isValidApiKey (publicApiKey p))"
  by (simp add: FrigadeProvider_mount_def)

lemma rerender_degrade:
  "shouldGracefullyDegrade st = (\<not> isValidApiKey (publicApiKey old)) \<Longrightarrow>
   shouldGracefullyDegrade (FrigadeProvider_rerender old new st) =
     (\<not> isValidApiKey (publicApiKey new))"
  by (simp add: FrigadeProvider_rerender_def Let_def)

text \<open>
  The invariant of the provider: the flag reflects the key of the latest props. It holds
  after mounting and every render keeps it.
\<close>

lemma renders_degrade:
  "shouldGracefullyDegrade st = (\<not> isValidApiKey (publicApiKey p)) \<Longrightarrow>
   shouldGracefullyDegrade (snd (renders p st qs)) =
     (\<not> isValidApiKey (publicApiKey (fst (renders p st qs))))"
proof (induction qs arbitrary: p st)
  case Nil
  then show ?case by simp
next
  case (Cons q qs)
  from Cons.prems
  have "shouldGracefullyDegrade (FrigadeProvider_rerender p q st) =
          (\<not> isValidApiKey (publicApiKey q))"
    by (rule rerender_degrade)
  then show ?case using Cons.IH by simp
qed

lemma renders_fst: "fst (renders p st qs) = last (p # qs)"
  by (induction qs arbitrary: p st) auto

text \<open>
  Claim C3. The provider is in graceful-degradation mode exactly when the key of its
  latest props is invalid, from the first render on and after every later render; a key
  is valid exactly when it is not empty, longer than 10 characters and starts with the 10
  characters \<^verbatim>\<open>api_public\<close>. In particular the prefix followed by any non-empty rest
  (a key of length at least 11) never degrades, whatever the rest is.
\<close>

theorem api_key_decides_degradation:
  "(shouldGracefullyDegrade (initialState p) \<longleftrightarrow>
      \<not> (publicApiKey p \<noteq> [] \<and> 10 < length (publicApiKey p) \<and>
         take 10 (publicApiKey p) = ''api_public'')) \<and>
   (shouldGracefullyDegrade (snd (FrigadeProvider_run p qs)) \<longleftrightarrow>
      \<not> (publicApiKey (last (p # qs)) \<noteq> [] \<and> 10 < length (publicApiKey (last (p # qs))) \<and>
         take 10 (publicApiKey (last (p # qs))) = ''api_public'')) \<and>
   (rest \<noteq> [] \<longrightarrow> publicApiKey (last (p # qs)) = ''api_public'' @ rest \<longrightarrow>
      \<not> shouldGracefullyDegrade (snd (FrigadeProvider_run p qs)))"
proof -
  let ?k = "publicApiKey (last (p # qs))"
  have init: "shouldGracefullyDegrade (initialState p) = (\<not> isValidApiKey (publicApiKey p))"
    by (simp add: initialState_def)
  have run: "shouldGracefullyDegrade (snd (FrigadeProvider_run p qs)) = (\<not> isValidApiKey ?k)"
    unfolding FrigadeProvider_run_def
    using renders_degrade [OF mount_degrade, of p qs] by (simp only: renders_fst)
  have acc: "isValidApiKey (''api_public'' @ rest)" if "rest \<noteq> []"
    using that by (simp add: isValidApiKey_iff)
  show ?thesis using init run acc by (auto simp: isValidApiKey_iff)
qed

text \<open>
  A provider mounted with the key \<^verbatim>\<open>bad\<close> and then given \<^verbatim>\<open>api_public!\<close> (11
  characters) leaves the mode; the bare prefix (10 characters) is in it.
\<close>

theorem api_key_decides_degradation_witness:
  "''!'' \<noteq> [] \<and>
   publicApiKey (last [key_props ''bad'', key_props ''api_public!'']) = ''api_public'' @ ''!'' \<and>
   \<not> shouldGracefullyDegrade
       (snd (FrigadeProvider_run (key_props ''bad'') [key_props ''api_public!''])) \<and>
   shouldGracefullyDegrade (snd (FrigadeProvider_run (key_props ''api_public'') []))"
  using api_key_decides_degradation [of "key_props ''bad''" "[key_props ''api_public!'']" "''!''"]
    api_key_decides_degradation [of "key_props ''api_public''" "[]" "''!''"]
  by (simp add: key_props_def)

lemma userIdEffect_userIdValue:
  "userIdValue (userIdEffect p st) = (if truthy_prop p then initialIdValue p else userIdValue st)"
  by (cases p) auto

lemma organizationIdEffect_organizationIdValue:
  "organizationIdValue (organizationIdEffect p st) =
     (if truthy_prop p then initialIdValue p else organizationIdValue st)"
  by (cases p) auto

lemma userIdEffect_organizationIdValue [simp]:
  "organizationIdValue (userIdEffect p st) = organizationIdValue st"
  by (cases p) auto

lemma organizationIdEffect_userIdValue [simp]:
  "userIdValue (organizationIdEffect p st) = userIdValue st"
  by (cases p) auto

lemma apiKeyEffect_ids [simp]:
  "userIdValue (apiKeyEffect k st) = userIdValue st"
  "organizationIdValue (apiKeyEffect k st) = organizationIdValue st"
  by (simp_all add: apiKeyEffect_def)

lemma rerender_userIdValue:
  "userIdValue (FrigadeProvider_rerender old new st) =
     (if userId new \<noteq> userId old \<and> truthy_prop (userId new)
      then initialIdValue (userId new) else userIdValue st)"
  by (simp add: FrigadeProvider_rerender_def Let_def userIdEffect_userIdValue)

lemma rerender_organizationIdValue:
  "organizationIdValue (FrigadeProvider_rerender old new st) =
     (if organizationId new \<noteq> organizationId old \<and> truthy_prop (organizationId new)
      then initialIdValue (organizationId new) else organizationIdValue st)"
  by (simp add: FrigadeProvider_rerender_def Let_def organizationIdEffect_organizationIdValue)

lemma truthy_prop_Str:
  "truthy_prop q \<Longrightarrow> \<exists>s. s \<noteq> [] \<and> q = Str s \<and> initialIdValue q = Some s"
  by (cases q) auto

text \<open>
  Claim C10. A render whose \<^verbatim>\<open>userId\<close> prop is \<^verbatim>\<open>undefined\<close>, \<^verbatim>\<open>null\<close> or the empty
  string leaves the stored user id as it was: the effect does nothing to the state. The
  stored id changes in a render only when the new prop is a non-empty string, and then to
  that string. The same holds for \<^verbatim>\<open>organizationId\<close>.
\<close>

theorem identity_kept_on_falsy_prop:
  "(\<not> truthy_prop (userId new) \<longrightarrow>
      userIdEffect (userId new) st = st \<and>
      userIdValue (FrigadeProvider_rerender old new st) = userIdValue st) \<and>
   (\<not> truthy_prop (organizationId new) \<longrightarrow>
      organizationIdEffect (organizationId new) st = st \<and>
      organizationIdValue (FrigadeProvider_rerender old new st) = organizationIdValue st) \<and>
   (userIdValue (FrigadeProvider_rerender old new st) \<noteq> userIdValue st \<longrightarrow>
      (\<exists>s. s \<noteq> [] \<and> userId new = Str s \<and>
           userIdValue (FrigadeProvider_rerender old new st) = Some s)) \<and>
   (organizationIdValue (FrigadeProvider_rerender old new st) \<noteq> organizationIdValue st \<longrightarrow>
      (\<exists>s. s \<noteq> [] \<and> organizationId new = Str s \<and>
           organizationIdValue (FrigadeProvider_rerender old new st) = Some s))"
proof -
  have e1: "\<not> truthy_prop q \<Longrightarrow> userIdEffect q st = st" for q by (cases q) auto
  have e2: "\<not> truthy_prop q \<Longrightarrow> organizationIdEffect q st = st" for q by (cases q) auto
  show ?thesis
    using e1 e2 truthy_prop_Str
    by (auto simp: rerender_userIdValue rerender_organizationIdValue split: if_splits)
qed

text \<open>
  A signed-in provider whose props lose the user id (\<^verbatim>\<open>undefined\<close>) and get an empty
  organization id keeps both stored ids; with the props \<^verbatim>\<open>user-2\<close> and \<^verbatim>\<open>null\<close> it
  takes the new user id and keeps the organization.
\<close>

theorem identity_kept_on_falsy_prop_witness:
  "\<not> truthy_prop (userId (id_props Undefined (Str ''''))) \<and>
   \<not> truthy_prop (organizationId (id_props Undefined (Str ''''))) \<and>
   userIdValue (FrigadeProvider_rerender (id_props (Str ''user-1'') (Str ''org-1''))
      (id_props Undefined (Str '''')) signed_in) = Some ''user-1'' \<and>
   organizationIdValue (FrigadeProvider_rerender (id_props (Str ''user-1'') (Str ''org-1''))
      (id_props Undefined (Str '''')) signed_in) = Some ''org-1'' \<and>
   userIdValue (FrigadeProvider_rerender (id_props (Str ''user-1'') (Str ''org-1''))
      (id_props (Str ''user-2'') Null) signed_in) = Some ''user-2'' \<and>
   organizationIdValue (FrigadeProvider_rerender (id_props (Str ''user-1'') (Str ''org-1''))
      (id_props (Str ''user-2'') Null) signed_in) = Some ''org-1''"
proof -
  let ?old = "id_props (Str ''user-1'') (Str ''org-1'')"
  let ?off = "id_props Undefined (Str '''')"
  let ?next = "id_props (Str ''user-2'') Null"
  have h1: "\<not> truthy_prop (userId ?off)" and h2: "\<not> truthy_prop (organizationId ?off)"
    and h3: "\<not> truthy_prop (organizationId ?next)"
    by (simp_all add: id_props_def)
  have h4: "userIdValue (FrigadeProvider_rerender ?old ?next signed_in) \<noteq> userIdValue signed_in"
    by (simp add: rerender_userIdValue id_props_def signed_in_def)
  have v: "userIdValue signed_in = Some ''user-1''" "organizationIdValue signed_in = Some ''org-1''"
    by (simp_all add: signed_in_def)
  have n: "userId ?next = Str ''user-2''" by (simp add: id_props_def)
  from identity_kept_on_falsy_prop [of ?off signed_in ?old] h1 h2 v
  have a: "userIdValue (FrigadeProvider_rerender ?old ?off signed_in) = Some ''user-1''"
    "organizationIdValue (FrigadeProvider_rerender ?old ?off signed_in) = Some ''org-1''"
    by simp_all
  from identity_kept_on_falsy_prop [of ?next signed_in ?old] h3 h4 v n
  have b: "userIdValue (FrigadeProvider_rerender ?old ?next signed_in) = Some ''user-2''"
    "organizationIdValue (FrigadeProvider_rerender ?old ?next signed_in) = Some ''org-1''"
    by auto
  show ?thesis using h1 h2 a b by simp
qed

section \<open>MultiInputStepType: theorems\<close>

text \<open>
  Claim C1, as stated, at a concrete input. Field \<^verbatim>\<open>A\<close> has the error "required" in
  the aggregate and reports the one error "too short": the prior error of \<^verbatim>\<open>A\<close> is
  still in the aggregate, which is not exactly the newly reported list.
\<close>

theorem prior_errors_survive_nonempty_report:
  "id_error A_required = id_input field_A \<and>
   A_required \<in> set (formValidationErrors
                       (setFormValidationErrors field_A [A_too_short] (step_with_errors [A_required]))) \<and>
   filter (\<lambda>e. id_error e = id_input field_A)
     (formValidationErrors
        (setFormValidationErrors field_A [A_too_short] (step_with_errors [A_required])))
     \<noteq> [A_too_short]"
  by (simp add: setFormValidationErrors_def setFormValidationErrors_updater_def
      canContinueEffect_def step_with_errors_def field_A_def A_required_def A_too_short_def)

text \<open>
  Claim C1, amended. When a field reports a non-empty error list, the aggregate becomes
  the previous aggregate followed by the reported errors: every prior error stays, those
  of the reporting field too. When a field reports the empty list, the aggregate becomes
  the previous one without the errors whose identifier is the field's: none of them is
  left and every other error stays.
\<close>

theorem validation_errors_aggregate:
  "(errors \<noteq> [] \<longrightarrow>
      formValidationErrors (setFormValidationErrors input errors st) =
        formValidationErrors st @ errors) \<and>
   (errors = [] \<longrightarrow>
      formValidationErrors (setFormValidationErrors input errors st) =
        filter (\<lambda>e. id_error e \<noteq> id_input input) (formValidationErrors st) \<and>
      (\<forall>e \<in> set (formValidationErrors (setFormValidationErrors input errors st)).
          id_error e \<noteq> id_input input) \<and>
      (\<forall>e \<in> set (formValidationErrors st). id_error e \<noteq> id_input input \<longrightarrow>
          e \<in> set (formValidationErrors (setFormValidationErrors input errors st))))"
  by (auto simp: setFormValidationErrors_def setFormValidationErrors_updater_def
      canContinueEffect_def)

theorem validation_errors_aggregate_witness:
  "[A_too_short] \<noteq> [] \<and>
   formValidationErrors
     (setFormValidationErrors field_A [A_too_short] (step_with_errors [A_required, B_required])) =
     [A_required, B_required, A_too_short] \<and>
   formValidationErrors
     (setFormValidationErrors field_A [] (step_with_errors [A_required, B_required])) =
     [B_required]"
  using validation_errors_aggregate [of "[A_too_short]" field_A "step_with_errors [A_required, B_required]"]
    validation_errors_aggregate [of "[]" field_A "step_with_errors [A_required, B_required]"]
  by (simp add: step_with_errors_def field_A_def A_required_def B_required_def)

lemma mount_inv:
  "MultiInputStepType_mount parse win sid c0 = Inr st \<Longrightarrow>
   canContinue st \<and> formValidationErrors st = []"
  by (auto simp: MultiInputStepType_mount_def canContinueEffect_def split: sum.splits)

lemma interact_inv:
  "canContinue st = (formValidationErrors st = []) \<Longrightarrow>
   canContinue (interact stringify sid st ev) =
     (formValidationErrors (interact stringify sid st ev) = [])"
  by (cases ev)
    (simp_all add: saveDataFromInputs_def Let_def setFormValidationErrors_def
      canContinueEffect_def split: sum.splits option.splits)

lemma interactions_inv:
  "canContinue st = (formValidationErrors st = []) \<Longrightarrow>
   canContinue (interactions stringify sid st evs) =
     (formValidationErrors (interactions stringify sid st evs) = [])"
  unfolding interactions_def
proof (induction evs arbitrary: st)
  case Nil
  then show ?case by simp
next
  case (Cons ev evs)
  have "canContinue (interact stringify sid st ev) =
          (formValidationErrors (interact stringify sid st ev) = [])"
    using Cons.prems by (rule interact_inv)
  then show ?case using Cons.IH by simp
qed

text \<open>
  Claim C2. After mounting, \<^verbatim>\<open>canContinue\<close> is published as true, and after every run
  of field interactions the published value is true exactly when the aggregated error
  list is empty. A field that reports at least one error makes it false; when every error
  in the aggregate belongs to one field and that field reports the empty list, it is true
  again.
\<close>

theorem canContinue_iff_no_errors:
  assumes "MultiInputStepType_mount parse win sid c0 = Inr st0"
  shows "canContinue st0 \<and>
   (canContinue (interactions stringify sid st0 evs) \<longleftrightarrow>
      formValidationErrors (interactions stringify sid st0 evs) = []) \<and>
   (errors \<noteq> [] \<longrightarrow>
      \<not> canContinue (setFormValidationErrors input errors (interactions stringify sid st0 evs))) \<and>
   (list_all (\<lambda>e. id_error e = id_input input)
       (formValidationErrors (interactions stringify sid st0 evs)) \<longrightarrow>
      canContinue (setFormValidationErrors input [] (interactions stringify sid st0 evs)))"
proof -
  from mount_inv [OF assms] have m: "canContinue st0" "formValidationErrors st0 = []" by auto
  then have "canContinue st0 = (formValidationErrors st0 = [])" by simp
  then have inv: "canContinue (interactions stringify sid st0 evs) \<longleftrightarrow>
      formValidationErrors (interactions stringify sid st0 evs) = []"
    by (rule interactions_inv)
  have intro: "errors \<noteq> [] \<Longrightarrow> \<not> canContinue (setFormValidationErrors input errors st)" for st
    by (simp add: setFormValidationErrors_def setFormValidationErrors_updater_def
        canContinueEffect_def)
  have clear: "list_all (\<lambda>e. id_error e = id_input input) (formValidationErrors st) \<Longrightarrow>
      canContinue (setFormValidationErrors input [] st)" for st
    by (simp add: setFormValidationErrors_def setFormValidationErrors_updater_def
        canContinueEffect_def filter_empty_conv list_all_iff)
  show ?thesis using m(1) inv intro clear by blast
qed

text \<open>
  A step mounted over an empty storage while the parent's flag was false: the flag is
  published as true; field \<^verbatim>\<open>A\<close> saves a value and reports "required", and the flag is
  false; \<^verbatim>\<open>A\<close> reports no error, and it is true again.
\<close>

theorem canContinue_iff_no_errors_witness:
  "MultiInputStepType_mount JSON_parse_model empty_storage ''step-1'' False =
     Inr (fresh_step) \<and>
   canContinue fresh_step \<and>
   formValidationErrors (interactions JSON_stringify_model ''step-1'' fresh_step
      [OnSaveInputData field_A (JStr ''x''), SetFormValidationErrors field_A [A_required]]) =
     [A_required] \<and>
   \<not> canContinue (interactions JSON_stringify_model ''step-1'' fresh_step
      [OnSaveInputData field_A (JStr ''x''), SetFormValidationErrors field_A [A_required]]) \<and>
   canContinue (setFormValidationErrors field_A []
     (interactions JSON_stringify_model ''step-1'' fresh_step
      [OnSaveInputData field_A (JStr ''x''), SetFormValidationErrors field_A [A_required]]))"
proof -
  let ?evs = "[OnSaveInputData field_A (JStr ''x''), SetFormValidationErrors field_A [A_required]]"
  let ?st = "interactions JSON_stringify_model ''step-1'' fresh_step ?evs"
  have m: "MultiInputStepType_mount JSON_parse_model empty_storage ''step-1'' False = Inr fresh_step"
    by (simp add: MultiInputStepType_mount_def allFormData_initial_def loadFromLocalStorage_def
        empty_storage_def fresh_step_def canContinueEffect_def)
  have e: "formValidationErrors ?st = [A_required]"
    by (simp add: interactions_def saveDataFromInputs_def Let_def setFormValidationErrors_def
        setFormValidationErrors_updater_def canContinueEffect_def fresh_step_def
        empty_storage_def)
  have l: "list_all (\<lambda>e. id_error e = id_input field_A) (formValidationErrors ?st)"
    unfolding e by (simp add: A_required_def field_A_def)
  from canContinue_iff_no_errors [OF m, of JSON_stringify_model ?evs "[A_required]" field_A] e l
  show ?thesis using m by simp
qed

lemma save_allFormData:
  "allFormData (fst (saveDataFromInputs stringify sid seen input data st)) =
     JObj (AList.update (id_input input) data (spread seen))"
  by (simp add: saveDataFromInputs_def Let_def split: sum.splits option.splits)

lemma save_property:
  "property (allFormData (fst (saveDataFromInputs stringify sid seen input data st))) =
   (property seen)(id_input input \<mapsto> data)"
  by (rule ext) (simp add: save_allFormData property_def update_conv')

lemma save_storage:
  "storage_available (window st) \<Longrightarrow>
   getItem (window (fst (saveDataFromInputs stringify sid seen input data st)))
     (getLocalStorageKey sid) =
     Some (stringify (allFormData (fst (saveDataFromInputs stringify sid seen input data st)))) \<and>
   storage_available (window (fst (saveDataFromInputs stringify sid seen input data st))) \<and>
   snd (saveDataFromInputs stringify sid seen input data st) = None"
  by (auto simp: saveDataFromInputs_def Let_def getItem_def storage_available_def
      split: sum.splits option.splits)

lemma save_calls:
  "onSaveData_calls (fst (saveDataFromInputs stringify sid seen input data st)) =
     onSaveData_calls st @
       [allFormData (fst (saveDataFromInputs stringify sid seen input data st))]"
  by (simp add: saveDataFromInputs_def Let_def split: sum.splits option.splits)

text \<open>
  A window without a readable storage: the save sets the state, calls \<^verbatim>\<open>onSaveData\<close>
  and then throws, where the global is not declared or the access is denied.
\<close>

lemma save_throws:
  "snd (saveDataFromInputs stringify sid seen input data st) =
     (case window_localStorage (window st) of Inl e \<Rightarrow> Some e | Inr ls \<Rightarrow> None)"
  by (simp add: saveDataFromInputs_def Let_def split: sum.splits option.splits)

text \<open>
  When a render separates the two submissions, the second handler closes over the
  aggregate that the first one set, and the merges of two distinct fields commute.
\<close>

lemma merge_with_render_between:
  assumes "id_input A \<noteq> id_input B"
  shows "let a = fst (saveDataFromInputs stringify sid (allFormData st) A va st);
             ab = fst (saveDataFromInputs stringify sid (allFormData a) B vb a);
             b = fst (saveDataFromInputs stringify sid (allFormData st) B vb st);
             ba = fst (saveDataFromInputs stringify sid (allFormData b) A va b)
         in property (allFormData ab) (id_input A) = Some va \<and>
            property (allFormData ab) (id_input B) = Some vb \<and>
            property (allFormData ab) = property (allFormData ba) \<and>
            last (onSaveData_calls ab) = allFormData ab \<and>
            (storage_available (window st) \<longrightarrow>
               getItem (window ab) (getLocalStorageKey sid) = Some (stringify (allFormData ab)))"
proof -
  let ?a = "fst (saveDataFromInputs stringify sid (allFormData st) A va st)"
  have sto: "getItem (window (fst (saveDataFromInputs stringify sid (allFormData ?a) B vb ?a)))
               (getLocalStorageKey sid) =
             Some (stringify (allFormData (fst (saveDataFromInputs stringify sid (allFormData ?a) B vb ?a))))"
    if av: "storage_available (window st)"
  proof -
    have "storage_available (window ?a)" using save_storage [OF av] by blast
    then show ?thesis using save_storage by blast
  qed
  show ?thesis
    unfolding Let_def using assms sto by (simp add: save_property save_calls fun_upd_twist)
qed

text \<open>
  Two submissions from the closures of one render: the second handler spreads the
  aggregate of that render, not the one the first handler set, so the aggregate, the
  argument of \<^verbatim>\<open>onSaveData\<close> and the stored text have the second field and, for the
  first field, what the render had.
\<close>

lemma merge_within_one_render:
  "let a = fst (saveDataFromInputs stringify sid seen A va st);
       ab = fst (saveDataFromInputs stringify sid seen B vb a)
   in property (allFormData ab) = (property seen)(id_input B \<mapsto> vb) \<and>
      last (onSaveData_calls ab) = allFormData ab \<and>
      (storage_available (window st) \<longrightarrow>
         getItem (window ab) (getLocalStorageKey sid) = Some (stringify (allFormData ab)))"
proof -
  let ?a = "fst (saveDataFromInputs stringify sid seen A va st)"
  have sto: "getItem (window (fst (saveDataFromInputs stringify sid seen B vb ?a)))
               (getLocalStorageKey sid) =
             Some (stringify (allFormData (fst (saveDataFromInputs stringify sid seen B vb ?a))))"
    if av: "storage_available (window st)"
  proof -
    have "storage_available (window ?a)" using save_storage [OF av] by blast
    then show ?thesis using save_storage by blast
  qed
  show ?thesis
    unfolding Let_def using sto by (simp add: save_property save_calls)
qed

lemma stringify_B:
  "JSON_stringify_model (JObj [(''B'', JArr [JStr ''y'', JStr ''z''])]) =
     [CHR ''{'', CHR 0x22, CHR ''B'', CHR 0x22, CHR '':'', CHR ''['', CHR 0x22, CHR ''y'',
      CHR 0x22, CHR '','', CHR 0x22, CHR ''z'', CHR 0x22, CHR '']'', CHR ''}'']"
  by code_simp

text \<open>
  Claim C6 at a failing input. Step \<^verbatim>\<open>step-1\<close> is mounted with the empty aggregate
  over an empty storage. In one render field \<^verbatim>\<open>A\<close> submits \<^verbatim>\<open>"x"\<close> and then field
  \<^verbatim>\<open>B\<close> submits \<^verbatim>\<open>["y","z"]\<close>, both through the \<^verbatim>\<open>onSaveInputData\<close> closures of that
  render. After the first call the aggregate is \<^verbatim>\<open>{A: "x"}\<close>. After the second the
  aggregate is \<^verbatim>\<open>{B: ["y","z"]}\<close>: it has no value for \<^verbatim>\<open>A\<close>, and the storage holds
  \<^verbatim>\<open>{"B":["y","z"]}\<close> under the key of the step. The claim promises \<^verbatim>\<open>A\<close> and \<^verbatim>\<open>B\<close>
  in the aggregate and in the storage.
\<close>

theorem same_render_saves_lose_first_field:
  "let a = fst (saveDataFromInputs JSON_stringify_model ''step-1'' (allFormData fresh_step)
                  field_A (JStr ''x'') fresh_step);
       ab = fst (saveDataFromInputs JSON_stringify_model ''step-1'' (allFormData fresh_step)
                   field_B (JArr [JStr ''y'', JStr ''z'']) a)
   in id_input field_A \<noteq> id_input field_B \<and>
      allFormData a = JObj [(''A'', JStr ''x'')] \<and>
      allFormData ab = JObj [(''B'', JArr [JStr ''y'', JStr ''z''])] \<and>
      property (allFormData ab) (id_input field_A) = None \<and>
      last (onSaveData_calls ab) = JObj [(''B'', JArr [JStr ''y'', JStr ''z''])] \<and>
      getItem (window ab) ''frigade-multiInputStepTypeData-step-1'' =
        Some [CHR ''{'', CHR 0x22, CHR ''B'', CHR 0x22, CHR '':'', CHR ''['', CHR 0x22, CHR ''y'',
              CHR 0x22, CHR '','', CHR 0x22, CHR ''z'', CHR 0x22, CHR '']'', CHR ''}'']"
proof -
  let ?a = "fst (saveDataFromInputs JSON_stringify_model ''step-1'' (allFormData fresh_step)
                  field_A (JStr ''x'') fresh_step)"
  let ?ab = "fst (saveDataFromInputs JSON_stringify_model ''step-1'' (allFormData fresh_step)
                   field_B (JArr [JStr ''y'', JStr ''z'']) ?a)"
  have ids: "id_input field_A = ''A''" "id_input field_B = ''B''"
    by (simp_all add: field_A_def field_B_def)
  have seen: "allFormData fresh_step = JObj []" by (simp add: fresh_step_def)
  have a: "allFormData ?a = JObj [(''A'', JStr ''x'')]"
    by (simp add: save_allFormData ids seen)
  have ab: "allFormData ?ab = JObj [(''B'', JArr [JStr ''y'', JStr ''z''])]"
    by (simp add: save_allFormData ids seen)
  have av: "storage_available (window fresh_step)"
    by (simp add: fresh_step_def empty_storage_def storage_available_def)
  have "storage_available (window ?a)" using save_storage [OF av] by blast
  from save_storage [OF this, of JSON_stringify_model "''step-1''" "allFormData fresh_step"
      field_B "JArr [JStr ''y'', JStr ''z'']"]
  have sto: "getItem (window ?ab) ''frigade-multiInputStepTypeData-step-1'' =
      Some (JSON_stringify_model (allFormData ?ab))"
    by (simp add: getLocalStorageKey_def)
  have calls: "last (onSaveData_calls ?ab) = allFormData ?ab"
    by (simp add: save_calls)
  have p: "property (JObj [(''B'', JArr [JStr ''y'', JStr ''z''])]) ''A'' = None"
    by (simp add: property_def)
  show ?thesis
    unfolding Let_def sto calls a ab stringify_B ids using p by simp
qed

lemma load_cases:
  "loadFromLocalStorage parse win sid =
     (case window_localStorage win of
        Inl e \<Rightarrow> Inl e
      | Inr ls \<Rightarrow>
          (case getItem win (getLocalStorageKey sid) of
             None \<Rightarrow> Inr (JObj [])
           | Some d \<Rightarrow> if d \<noteq> [] then parse d else Inr (JObj [])))"
  by (simp add: loadFromLocalStorage_def getItem_def split: sum.splits option.splits)

lemma getItem_Some_available: "getItem win k = Some d \<Longrightarrow> storage_available win"
  by (simp add: getItem_def storage_available_def split: sum.splits option.splits)

lemma available_not_throwing:
  "storage_available win \<or> storage_falsy win \<Longrightarrow> \<exists>ls. window_localStorage win = Inr ls"
  by (auto simp: storage_available_def storage_falsy_def split: sum.splits option.splits)

lemma falsy_no_item: "storage_falsy win \<Longrightarrow> getItem win k = None"
  by (simp add: storage_falsy_def getItem_def)

text \<open>
  Where the global \<^verbatim>\<open>window\<close> is not declared, or the browser denies the read of
  \<^verbatim>\<open>window.localStorage\<close>, the exception leaves the initialiser: the step does not mount.
\<close>

lemma mount_throws_without_readable_window:
  "MultiInputStepType_mount parse Undeclared sid c0 = Inl ReferenceError"
  "MultiInputStepType_mount parse (Window Denied) sid c0 = Inl SecurityError"
  by (simp_all add: MultiInputStepType_mount_def allFormData_initial_def loadFromLocalStorage_def)

lemma parse_null: "JSON_parse_model ''null'' = Inr JNull"
  by code_simp

text \<open>
  Claim C7, as stated, at a concrete input. The storage holds the text \<^verbatim>\<open>null\<close> under
  the key of step \<^verbatim>\<open>step-1\<close>. Its JSON-parse is \<^verbatim>\<open>null\<close>; the aggregate starts as the
  empty object.
\<close>

theorem stored_null_hydrates_to_empty_object:
  "getItem (storage_with ''frigade-multiInputStepTypeData-step-1'' ''null'')
     (getLocalStorageKey ''step-1'') = Some ''null'' \<and>
   JSON_parse_model ''null'' = Inr JNull \<and>
   allFormData_initial JSON_parse_model
     (storage_with ''frigade-multiInputStepTypeData-step-1'' ''null'') ''step-1'' = Inr (JObj []) \<and>
   JObj [] \<noteq> JNull"
  by (simp add: allFormData_initial_def load_cases getItem_def storage_with_def
      getLocalStorageKey_def parse_null)

text \<open>
  Claim C7, amended. Let \<open>d\<close> be the text stored under the step's key. When \<open>d\<close> is not
  empty and its JSON-parse is a truthy value (every object and array is), the aggregate
  starts as exactly that value, before any interaction; so a step that persisted its
  aggregate and is mounted again starts with that aggregate, given that the platform's
  parse inverts its serialisation there. When the storage has no entry under the key,
  when \<^verbatim>\<open>window\<close> or \<^verbatim>\<open>window.localStorage\<close> is a falsy value, when \<open>d\<close> is empty, or
  when the parse of \<open>d\<close> is falsy (\<^verbatim>\<open>null\<close>, \<^verbatim>\<open>false\<close>, \<^verbatim>\<open>0\<close>, \<^verbatim>\<open>""\<close>), the aggregate
  starts as the empty object. When \<open>d\<close> is not JSON, the exception of the parse leaves the
  mount.
\<close>

theorem hydrate_from_storage:
  "(storage_falsy win \<longrightarrow> allFormData_initial parse win sid = Inr (JObj [])) \<and>
   (storage_available win \<and> getItem win (getLocalStorageKey sid) = None \<longrightarrow>
      allFormData_initial parse win sid = Inr (JObj [])) \<and>
   (getItem win (getLocalStorageKey sid) = Some [] \<longrightarrow>
      allFormData_initial parse win sid = Inr (JObj [])) \<and>
   (getItem win (getLocalStorageKey sid) = Some d \<and> d \<noteq> [] \<and> parse d = Inr v \<and> truthy v \<longrightarrow>
      allFormData_initial parse win sid = Inr v) \<and>
   (getItem win (getLocalStorageKey sid) = Some d \<and> d \<noteq> [] \<and> parse d = Inr v \<and> \<not> truthy v \<longrightarrow>
      allFormData_initial parse win sid = Inr (JObj [])) \<and>
   (getItem win (getLocalStorageKey sid) = Some d \<and> d \<noteq> [] \<and> parse d = Inl e \<longrightarrow>
      allFormData_initial parse win sid = Inl e \<and>
      MultiInputStepType_mount parse win sid c0 = Inl e) \<and>
   (allFormData_initial parse win sid = Inr a \<longrightarrow>
      (\<exists>st. MultiInputStepType_mount parse win sid c0 = Inr st \<and> allFormData st = a \<and>
            formValidationErrors st = [] \<and> onSaveData_calls st = [] \<and> window st = win)) \<and>
   (storage_available (window st) \<and>
    stringify (allFormData (fst (saveDataFromInputs stringify sid seen input data st))) \<noteq> [] \<and>
    parse (stringify (allFormData (fst (saveDataFromInputs stringify sid seen input data st)))) =
      Inr (allFormData (fst (saveDataFromInputs stringify sid seen input data st))) \<longrightarrow>
      allFormData_initial parse
        (window (fst (saveDataFromInputs stringify sid seen input data st))) sid =
        Inr (allFormData (fst (saveDataFromInputs stringify sid seen input data st))))"
proof -
  let ?saved = "fst (saveDataFromInputs stringify sid seen input data st)"
  have init: "allFormData_initial parse w sid =
      (case getItem w (getLocalStorageKey sid) of
         None \<Rightarrow> Inr (JObj [])
       | Some d \<Rightarrow> if d \<noteq> [] then (case parse d of Inl e \<Rightarrow> Inl e
                                    | Inr v \<Rightarrow> Inr (if truthy v then v else JObj []))
                  else Inr (JObj []))"
    if "storage_available w \<or> storage_falsy w" for w
    using available_not_throwing [OF that]
    by (auto simp: allFormData_initial_def load_cases split: option.splits sum.splits)
  have c1: "storage_falsy win \<Longrightarrow> allFormData_initial parse win sid = Inr (JObj [])"
    by (simp add: init falsy_no_item)
  have c2: "storage_available win \<Longrightarrow> getItem win (getLocalStorageKey sid) = None \<Longrightarrow>
      allFormData_initial parse win sid = Inr (JObj [])"
    by (simp add: init)
  have c3: "getItem win (getLocalStorageKey sid) = Some x \<Longrightarrow>
      allFormData_initial parse win sid =
        (if x \<noteq> [] then (case parse x of Inl e \<Rightarrow> Inl e
                                    | Inr v \<Rightarrow> Inr (if truthy v then v else JObj []))
         else Inr (JObj []))" for x
    using getItem_Some_available [of win "getLocalStorageKey sid" x] by (simp add: init)
  have c6: "allFormData_initial parse win sid = Inl e \<Longrightarrow>
      MultiInputStepType_mount parse win sid c0 = Inl e" for e
    by (simp add: MultiInputStepType_mount_def)
  have c7: "allFormData_initial parse win sid = Inr a \<Longrightarrow>
      (\<exists>st. MultiInputStepType_mount parse win sid c0 = Inr st \<and> allFormData st = a \<and>
            formValidationErrors st = [] \<and> onSaveData_calls st = [] \<and> window st = win)"
    by (simp add: MultiInputStepType_mount_def canContinueEffect_def)
  have obj: "truthy (allFormData ?saved)"
    by (simp add: save_allFormData)
  have c8: "allFormData_initial parse (window ?saved) sid = Inr (allFormData ?saved)"
    if av: "storage_available (window st)" and ne: "stringify (allFormData ?saved) \<noteq> []"
      and rt: "parse (stringify (allFormData ?saved)) = Inr (allFormData ?saved)"
  proof -
    from save_storage [OF av, of stringify sid seen input data]
    have g: "getItem (window ?saved) (getLocalStorageKey sid) = Some (stringify (allFormData ?saved))"
      and av': "storage_available (window ?saved)" by blast+
    show ?thesis using ne rt obj by (simp add: init av' g)
  qed
  show ?thesis
    using c1 c2 c3 [of "[]"] c3 [of d] c6 c7 c8 by (auto split: sum.splits)
qed

lemma stringify_A:
  "JSON_stringify_model (JObj [(''A'', JStr ''x'')]) =
     [CHR ''{'', CHR 0x22, CHR ''A'', CHR 0x22, CHR '':'', CHR 0x22, CHR ''x'', CHR 0x22, CHR ''}'']"
  by code_simp

lemma parse_A:
  "JSON_parse_model
     [CHR ''{'', CHR 0x22, CHR ''A'', CHR 0x22, CHR '':'', CHR 0x22, CHR ''x'', CHR 0x22, CHR ''}''] =
     Inr (JObj [(''A'', JStr ''x'')])"
  by code_simp

lemma parse_not_json: "JSON_parse_model ''{A}'' = Inl SyntaxError"
  by code_simp

text \<open>
  Field \<^verbatim>\<open>A\<close> submits \<^verbatim>\<open>"x"\<close> to a fresh step, and the step is mounted again over the
  window it left: the aggregate starts as \<^verbatim>\<open>{A: "x"}\<close>. Over an empty storage it starts
  empty, over a window without storage too, over the stored empty text and the stored
  text \<^verbatim>\<open>null\<close> too, and over \<^verbatim>\<open>{A}\<close> the mount throws.
\<close>

theorem hydrate_from_storage_witness:
  "storage_available (window fresh_step) \<and>
   allFormData (fst (saveDataFromInputs JSON_stringify_model ''step-1'' (allFormData fresh_step)
      field_A (JStr ''x'') fresh_step)) = JObj [(''A'', JStr ''x'')] \<and>
   allFormData_initial JSON_parse_model
     (window (fst (saveDataFromInputs JSON_stringify_model ''step-1'' (allFormData fresh_step)
        field_A (JStr ''x'') fresh_step)))
     ''step-1'' = Inr (JObj [(''A'', JStr ''x'')]) \<and>
   allFormData_initial JSON_parse_model empty_storage ''step-1'' = Inr (JObj []) \<and>
   storage_falsy (Window NoStorage) \<and>
   allFormData_initial JSON_parse_model (Window NoStorage) ''step-1'' = Inr (JObj []) \<and>
   allFormData_initial JSON_parse_model (storage_with (getLocalStorageKey ''step-1'') '''')
     ''step-1'' = Inr (JObj []) \<and>
   allFormData_initial JSON_parse_model (storage_with (getLocalStorageKey ''step-1'') ''null'')
     ''step-1'' = Inr (JObj []) \<and>
   MultiInputStepType_mount JSON_parse_model (storage_with (getLocalStorageKey ''step-1'') ''{A}'')
     ''step-1'' True = Inl SyntaxError"
proof -
  let ?saved = "fst (saveDataFromInputs JSON_stringify_model ''step-1'' (allFormData fresh_step)
      field_A (JStr ''x'') fresh_step)"
  let ?k = "getLocalStorageKey ''step-1''"
  have h: "storage_available (window fresh_step)"
    by (simp add: fresh_step_def empty_storage_def storage_available_def)
  have v: "allFormData ?saved = JObj [(''A'', JStr ''x'')]"
    by (simp add: save_allFormData fresh_step_def field_A_def)
  have g0: "getItem empty_storage ?k = None" "storage_available empty_storage"
    by (simp_all add: getItem_def empty_storage_def storage_available_def)
  have f0: "storage_falsy (Window NoStorage)" by (simp add: storage_falsy_def)
  have g: "getItem (storage_with ?k t) ?k = Some t" for t
    by (simp add: getItem_def storage_with_def)
  have t: "\<not> truthy JNull" by simp
  from hydrate_from_storage [where st = fresh_step and stringify = JSON_stringify_model
      and sid = "''step-1''" and input = field_A and data = "JStr ''x''"
      and seen = "allFormData fresh_step" and parse = JSON_parse_model] h
  have r1: "allFormData_initial JSON_parse_model (window ?saved) ''step-1'' =
      Inr (JObj [(''A'', JStr ''x'')])"
    by (simp add: v stringify_A parse_A del: JSON_stringify_model.simps)
  from hydrate_from_storage [where win = empty_storage and sid = "''step-1''"
      and parse = JSON_parse_model] g0
  have r2: "allFormData_initial JSON_parse_model empty_storage ''step-1'' = Inr (JObj [])"
    by simp
  from hydrate_from_storage [where win = "Window NoStorage" and sid = "''step-1''"
      and parse = JSON_parse_model] f0
  have r2': "allFormData_initial JSON_parse_model (Window NoStorage) ''step-1'' = Inr (JObj [])"
    by simp
  from hydrate_from_storage [where win = "storage_with ?k ''''" and sid = "''step-1''"
      and parse = JSON_parse_model] g [of "''''"]
  have r3: "allFormData_initial JSON_parse_model (storage_with ?k '''') ''step-1'' = Inr (JObj [])"
    by simp
  from hydrate_from_storage [where win = "storage_with ?k ''null''" and sid = "''step-1''"
      and parse = JSON_parse_model and d = "''null''" and v = JNull]
    g [of "''null''"] parse_null t
  have r4: "allFormData_initial JSON_parse_model (storage_with ?k ''null'') ''step-1'' = Inr (JObj [])"
    by simp
  from hydrate_from_storage [where win = "storage_with ?k ''{A}''" and sid = "''step-1''"
      and parse = JSON_parse_model and d = "''{A}''" and e = SyntaxError and ?c0.0 = True]
    g [of "''{A}''"] parse_not_json
  have r5: "MultiInputStepType_mount JSON_parse_model (storage_with ?k ''{A}'') ''step-1'' True =
      Inl SyntaxError"
    by simp
  show ?thesis using h v f0 r1 r2 r2' r3 r4 r5 by simp
qed

section \<open>FrigadeNPSSurvey: theorems\<close>

text \<open>
  Claim C4, as stated, at a concrete input. The flow \<^verbatim>\<open>flow_nps\<close> is kept open during
  the session, it has one completed step, it is loaded, not hidden by targeting and no
  modal is open. With the status \<^verbatim>\<open>COMPLETED_FLOW\<close> the component renders nothing; with
  any other status it renders the survey. So the status check does suppress rendering of
  a flow that is kept open.
\<close>

theorem completed_flow_hidden_though_kept_open:
  "shouldKeepCompletedFlowOpenDuringSession (nps_opens True) (flowId nps_props) \<and>
   getFlowStatus (nps_flows ''COMPLETED_FLOW'' 1) (flowId nps_props) = ''COMPLETED_FLOW'' \<and>
   FrigadeNPSSurvey ''COMPLETED_FLOW'' nps_props (nps_flows ''COMPLETED_FLOW'' 1)
      (nps_opens True) nps_state = Inr None \<and>
   FrigadeNPSSurvey ''COMPLETED_FLOW'' nps_props (nps_flows ''STARTED_FLOW'' 1)
      (nps_opens True) nps_state \<noteq> Inr None"
  by (simp add: FrigadeNPSSurvey_def nps_opens_def nps_props_def nps_flows_def
      currentStep_of_def)

text \<open>
  Claim C4, amended. For every flow whose status is completed the component renders
  nothing, whether or not the flow is kept open during the session. Being kept open
  lifts the other guard only: a flow that is loaded, found, not hidden, not completed and
  without an open modal, with exactly one completed step, renders nothing exactly when it
  is not kept open.
\<close>

theorem completed_flow_renders_nothing:
  "(getFlowStatus flows (flowId props) = COMPLETED_FLOW \<longrightarrow>
      FrigadeNPSSurvey COMPLETED_FLOW props flows opens st = Inr None) \<and>
   (\<not> isLoading flows \<and> getFlow flows (flowId props) = Some flow \<and>
    \<not> targetingLogicShouldHideFlow flows flow \<and>
    getFlowStatus flows (flowId props) \<noteq> COMPLETED_FLOW \<and>
    getNumberOfStepsCompleted flows (flowId props) = 1 \<and> \<not> hasOpenModals opens \<longrightarrow>
      (FrigadeNPSSurvey COMPLETED_FLOW props flows opens st = Inr None \<longleftrightarrow>
         \<not> shouldKeepCompletedFlowOpenDuringSession opens (flowId props)))"
  by (auto simp: FrigadeNPSSurvey_def Let_def split: option.splits)

theorem completed_flow_renders_nothing_witness:
  "getFlowStatus (nps_flows ''COMPLETED_FLOW'' 0) (flowId nps_props) = ''COMPLETED_FLOW'' \<and>
   FrigadeNPSSurvey ''COMPLETED_FLOW'' nps_props (nps_flows ''COMPLETED_FLOW'' 0)
      (nps_opens True) nps_state = Inr None \<and>
   FrigadeNPSSurvey ''COMPLETED_FLOW'' nps_props (nps_flows ''COMPLETED_FLOW'' 0)
      (nps_opens False) nps_state = Inr None \<and>
   FrigadeNPSSurvey ''COMPLETED_FLOW'' nps_props (nps_flows ''STARTED_FLOW'' 1)
      (nps_opens False) nps_state = Inr None \<and>
   FrigadeNPSSurvey ''COMPLETED_FLOW'' nps_props (nps_flows ''STARTED_FLOW'' 1)
      (nps_opens True) nps_state \<noteq> Inr None"
proof -
  have c: "getFlowStatus (nps_flows ''COMPLETED_FLOW'' 0) (flowId nps_props) = ''COMPLETED_FLOW''"
    by (simp add: nps_flows_def)
  have g: "\<not> isLoading (nps_flows ''STARTED_FLOW'' 1)"
    "getFlow (nps_flows ''STARTED_FLOW'' 1) (flowId nps_props) = Some ()"
    "\<not> targetingLogicShouldHideFlow (nps_flows ''STARTED_FLOW'' 1) ()"
    "getFlowStatus (nps_flows ''STARTED_FLOW'' 1) (flowId nps_props) \<noteq> ''COMPLETED_FLOW''"
    "getNumberOfStepsCompleted (nps_flows ''STARTED_FLOW'' 1) (flowId nps_props) = 1"
    by (simp_all add: nps_flows_def nps_props_def)
  have o: "\<not> hasOpenModals (nps_opens k)"
    "shouldKeepCompletedFlowOpenDuringSession (nps_opens k) (flowId nps_props) = k" for k
    by (simp_all add: nps_opens_def)
  note T = completed_flow_renders_nothing [where props = nps_props and st = nps_state
      and COMPLETED_FLOW = "''COMPLETED_FLOW''"]
  from T [where flows = "nps_flows ''COMPLETED_FLOW'' 0" and opens = "nps_opens True"] c
  have r1: "FrigadeNPSSurvey ''COMPLETED_FLOW'' nps_props (nps_flows ''COMPLETED_FLOW'' 0)
      (nps_opens True) nps_state = Inr None" by blast
  from T [where flows = "nps_flows ''COMPLETED_FLOW'' 0" and opens = "nps_opens False"] c
  have r2: "FrigadeNPSSurvey ''COMPLETED_FLOW'' nps_props (nps_flows ''COMPLETED_FLOW'' 0)
      (nps_opens False) nps_state = Inr None" by blast
  from T [where flows = "nps_flows ''STARTED_FLOW'' 1" and opens = "nps_opens False"
      and flow = "()"] g o [of False]
  have r3: "FrigadeNPSSurvey ''COMPLETED_FLOW'' nps_props (nps_flows ''STARTED_FLOW'' 1)
      (nps_opens False) nps_state = Inr None" by simp
  from T [where flows = "nps_flows ''STARTED_FLOW'' 1" and opens = "nps_opens True"
      and flow = "()"] g o [of True]
  have r4: "FrigadeNPSSurvey ''COMPLETED_FLOW'' nps_props (nps_flows ''STARTED_FLOW'' 1)
      (nps_opens True) nps_state \<noteq> Inr None" by simp
  show ?thesis using c r1 r2 r3 r4 by simp
qed

text \<open>
  Claim C5. The Submit handler first invokes the step-completion call with the payload
  \<^verbatim>\<open>{feedbackText}\<close>. The flow-completion call is invoked only after that call is
  fulfilled, and the \<^verbatim>\<open>onButtonClick\<close> callback fires only after both calls are
  fulfilled. When both are fulfilled the run is: step completion invoked and fulfilled,
  flow completion invoked and fulfilled, then the callback if the caller supplied one.
\<close>

theorem submit_awaits_step_then_flow_then_callback:
  "let c1 = MarkStepCompleted (flowId props) (id_step currentStep) (FeedbackText text);
       c2 = MarkFlowCompleted (flowId props);
       cb = OnButtonClick currentStep 1 ''primary'';
       t = submit_onClick props currentStep text fulfils
   in t \<noteq> [] \<and> hd t = Invoked c1 \<and>
      precedes (Fulfilled c1) (Invoked c2) t \<and>
      precedes (Fulfilled c1) cb t \<and>
      precedes (Fulfilled c2) cb t \<and>
      (Invoked c2 \<in> set t \<longleftrightarrow> fulfils c1) \<and>
      (cb \<in> set t \<longleftrightarrow> fulfils c1 \<and> fulfils c2 \<and> onButtonClick props) \<and>
      (fulfils c1 \<and> fulfils c2 \<longrightarrow>
         t = [Invoked c1, Fulfilled c1, Invoked c2, Fulfilled c2] @
             (if onButtonClick props then [cb] else []))"
  by (simp add: submit_onClick_def await_def Let_def)

text \<open>Submit with the text \<^verbatim>\<open>great\<close>, every call fulfilled, a callback supplied.\<close>

theorem submit_awaits_step_then_flow_then_callback_witness:
  "all_fulfilled (MarkStepCompleted ''flow_nps'' ''nps-score'' (FeedbackText ''great'')) \<and>
   all_fulfilled (MarkFlowCompleted ''flow_nps'') \<and>
   submit_onClick nps_props nps_step ''great'' all_fulfilled =
     [Invoked (MarkStepCompleted ''flow_nps'' ''nps-score'' (FeedbackText ''great'')),
      Fulfilled (MarkStepCompleted ''flow_nps'' ''nps-score'' (FeedbackText ''great'')),
      Invoked (MarkFlowCompleted ''flow_nps''),
      Fulfilled (MarkFlowCompleted ''flow_nps''),
      OnButtonClick nps_step 1 ''primary'']"
proof -
  have p: "flowId nps_props = ''flow_nps''" "onButtonClick nps_props" "id_step nps_step = ''nps-score''"
    by (simp_all add: nps_props_def nps_step_def)
  have f: "all_fulfilled c" for c by (simp add: all_fulfilled_def)
  from submit_awaits_step_then_flow_then_callback [of nps_props nps_step "''great''" all_fulfilled]
  show ?thesis using f p by (simp add: Let_def)
qed

text \<open>
  Claim C9. In the reason screen the first button is the secondary-styled Skip button and
  the second is Submit. Each of the two handlers calls \<^verbatim>\<open>onButtonClick\<close> at most once,
  when the caller supplied it and the awaited calls were fulfilled, and then with the
  current step, the index 1 and the kind \<^verbatim>\<open>'primary'\<close>; neither ever calls it with the
  kind \<^verbatim>\<open>'secondary'\<close>.
\<close>

theorem skip_and_submit_report_primary:
  "filter is_OnButtonClick (skip_onClick props currentStep fulfils) =
     (if onButtonClick props \<and> fulfils (MarkFlowCompleted (flowId props))
      then [OnButtonClick currentStep 1 ''primary''] else []) \<and>
   filter is_OnButtonClick (submit_onClick props currentStep text fulfils) =
     (if onButtonClick props \<and>
         fulfils (MarkStepCompleted (flowId props) (id_step currentStep) (FeedbackText text)) \<and>
         fulfils (MarkFlowCompleted (flowId props))
      then [OnButtonClick currentStep 1 ''primary''] else []) \<and>
   OnButtonClick s i ''secondary'' \<notin> set (skip_onClick props currentStep fulfils) \<and>
   OnButtonClick s i ''secondary'' \<notin> set (submit_onClick props currentStep text fulfils) \<and>
   map button_onClick (reasonButtons (getScoreReason props st currentStep)) =
     [skip_onClick props currentStep, submit_onClick props currentStep (feedbackText st)] \<and>
   map secondary (reasonButtons (getScoreReason props st currentStep)) = [True, False]"
  by (simp add: skip_onClick_def submit_onClick_def await_def getScoreReason_def)

text \<open>Skip and Submit with every call fulfilled and a callback supplied.\<close>

theorem skip_and_submit_report_primary_witness:
  "filter is_OnButtonClick (skip_onClick nps_props nps_step all_fulfilled) =
     [OnButtonClick nps_step 1 ''primary''] \<and>
   filter is_OnButtonClick (submit_onClick nps_props nps_step ''great'' all_fulfilled) =
     [OnButtonClick nps_step 1 ''primary''] \<and>
   map secondary (reasonButtons (getScoreReason nps_props nps_state nps_step)) = [True, False]"
proof -
  have p: "onButtonClick nps_props" by (simp add: nps_props_def)
  have f: "all_fulfilled c" for c by (simp add: all_fulfilled_def)
  from skip_and_submit_report_primary [of nps_props nps_step all_fulfilled "''great''" _ _ nps_state]
  show ?thesis using p f by simp
qed

lemma upt_10: "[0..<10] = [0, 1, 2, 3, 4, 5, 6, 7, 8, 9]"
  by (simp add: upt_rec)

text \<open>
  Claim C8. The score chooser has exactly the ten buttons labelled 1 to 10, in this
  order. For every \<open>n\<close> from 1 to 10, the click on button \<open>n\<close> first sets the
  keep-open-during-session flag of the flow, then records the score \<open>n\<close>, then invokes
  the step-completion call of the current step with the payload \<^verbatim>\<open>{score: n}\<close> and
  awaits it. The chooser is what the component renders for a flow without completed step
  that passes the guards.
\<close>

theorem score_chooser_buttons:
  "map label (numberButtons (getScoreChooser props st currentStep)) =
     [1, 2, 3, 4, 5, 6, 7, 8, 9, 10] \<and>
   (\<forall>n \<in> {1..10}.
      label (numberButtons (getScoreChooser props st currentStep) ! (n - 1)) = n \<and>
      onClick (numberButtons (getScoreChooser props st currentStep) ! (n - 1)) fulfils =
        [SetKeepCompletedFlowOpenDuringSession (flowId props), SetScore n,
         Invoked (MarkStepCompleted (flowId props) (id_step currentStep) (Score n)),
         (if fulfils (MarkStepCompleted (flowId props) (id_step currentStep) (Score n))
          then Fulfilled (MarkStepCompleted (flowId props) (id_step currentStep) (Score n))
          else Rejected (MarkStepCompleted (flowId props) (id_step currentStep) (Score n)))]) \<and>
   (\<not> isLoading flows \<and> getFlow flows (flowId props) = Some flow \<and>
    \<not> targetingLogicShouldHideFlow flows flow \<and>
    getFlowStatus flows (flowId props) \<noteq> COMPLETED_FLOW \<and>
    getNumberOfStepsCompleted flows (flowId props) = 0 \<and> \<not> hasOpenModals opens \<and>
    currentStep_of flows (flowId props) = Some currentStep \<longrightarrow>
      FrigadeNPSSurvey COMPLETED_FLOW props flows opens st =
        Inr (Some \<lparr> dismissButton_onClick = dismiss_onClick props,
                    scoreChooser = Some (getScoreChooser props st currentStep),
                    scoreReason = None \<rparr>))"
proof -
  have labels: "map label (numberButtons (getScoreChooser props st currentStep)) =
      [1, 2, 3, 4, 5, 6, 7, 8, 9, 10]"
    by (simp add: getScoreChooser_def upt_10)
  have btn: "label (numberButtons (getScoreChooser props st currentStep) ! (n - 1)) = n \<and>
      onClick (numberButtons (getScoreChooser props st currentStep) ! (n - 1)) fulfils =
        [SetKeepCompletedFlowOpenDuringSession (flowId props), SetScore n,
         Invoked (MarkStepCompleted (flowId props) (id_step currentStep) (Score n)),
         (if fulfils (MarkStepCompleted (flowId props) (id_step currentStep) (Score n))
          then Fulfilled (MarkStepCompleted (flowId props) (id_step currentStep) (Score n))
          else Rejected (MarkStepCompleted (flowId props) (id_step currentStep) (Score n)))]"
    if "n \<in> {1..10}" for n
  proof -
    from that have "n - 1 < 10" and n: "n - 1 + 1 = n" by auto
    then have "numberButtons (getScoreChooser props st currentStep) ! (n - 1) =
       \<lparr> key = n - 1, label = n, selected = (score st = Some n),
         onClick = numberButton_onClick props currentStep (n - 1) \<rparr>"
      by (simp add: getScoreChooser_def del: upt_Suc)
    then show ?thesis using n by (simp add: numberButton_onClick_def await_def)
  qed
  have render: "FrigadeNPSSurvey COMPLETED_FLOW props flows opens st =
        Inr (Some \<lparr> dismissButton_onClick = dismiss_onClick props,
                    scoreChooser = Some (getScoreChooser props st currentStep),
                    scoreReason = None \<rparr>)"
    if "\<not> isLoading flows" "getFlow flows (flowId props) = Some flow"
      "\<not> targetingLogicShouldHideFlow flows flow"
      "getFlowStatus flows (flowId props) \<noteq> COMPLETED_FLOW"
      "getNumberOfStepsCompleted flows (flowId props) = 0" "\<not> hasOpenModals opens"
      "currentStep_of flows (flowId props) = Some currentStep"
    using that by (simp add: FrigadeNPSSurvey_def)
  show ?thesis using labels btn render by blast
qed

text \<open>
  The seventh button of the example flow, its call fulfilled; and the render of the flow
  before any step is completed.
\<close>

theorem score_chooser_buttons_witness:
  "(7::nat) \<in> {1..10} \<and>
   label (numberButtons (getScoreChooser nps_props nps_state nps_step) ! 6) = 7 \<and>
   onClick (numberButtons (getScoreChooser nps_props nps_state nps_step) ! 6) all_fulfilled =
     [SetKeepCompletedFlowOpenDuringSession ''flow_nps'', SetScore 7,
      Invoked (MarkStepCompleted ''flow_nps'' ''nps-score'' (Score 7)),
      Fulfilled (MarkStepCompleted ''flow_nps'' ''nps-score'' (Score 7))] \<and>
   FrigadeNPSSurvey ''COMPLETED_FLOW'' nps_props (nps_flows ''NOT_STARTED_FLOW'' 0)
      (nps_opens False) nps_state =
     Inr (Some \<lparr> dismissButton_onClick = dismiss_onClick nps_props,
                 scoreChooser = Some (getScoreChooser nps_props nps_state nps_step),
                 scoreReason = None \<rparr>)"
proof -
  have m: "(7::nat) \<in> {1..10}" by simp
  have p: "flowId nps_props = ''flow_nps''" "id_step nps_step = ''nps-score''"
    by (simp_all add: nps_props_def nps_step_def)
  have f: "all_fulfilled c" for c by (simp add: all_fulfilled_def)
  have g: "\<not> isLoading (nps_flows ''NOT_STARTED_FLOW'' 0)"
    "getFlow (nps_flows ''NOT_STARTED_FLOW'' 0) (flowId nps_props) = Some ()"
    "\<not> targetingLogicShouldHideFlow (nps_flows ''NOT_STARTED_FLOW'' 0) ()"
    "getFlowStatus (nps_flows ''NOT_STARTED_FLOW'' 0) (flowId nps_props) \<noteq> ''COMPLETED_FLOW''"
    "getNumberOfStepsCompleted (nps_flows ''NOT_STARTED_FLOW'' 0) (flowId nps_props) = 0"
    "\<not> hasOpenModals (nps_opens False)"
    "currentStep_of (nps_flows ''NOT_STARTED_FLOW'' 0) (flowId nps_props) = Some nps_step"
    by (simp_all add: nps_flows_def nps_props_def nps_opens_def currentStep_of_def)
  note T = score_chooser_buttons [where props = nps_props and st = nps_state
      and currentStep = nps_step and fulfils = all_fulfilled
      and flows = "nps_flows ''NOT_STARTED_FLOW'' 0" and flow = "()"
      and opens = "nps_opens False" and COMPLETED_FLOW = "''COMPLETED_FLOW''"]
  from T have b: "\<forall>n \<in> {1..10}.
      label (numberButtons (getScoreChooser nps_props nps_state nps_step) ! (n - 1)) = n \<and>
      onClick (numberButtons (getScoreChooser nps_props nps_state nps_step) ! (n - 1)) all_fulfilled =
        [SetKeepCompletedFlowOpenDuringSession (flowId nps_props), SetScore n,
         Invoked (MarkStepCompleted (flowId nps_props) (id_step nps_step) (Score n)),
         (if all_fulfilled (MarkStepCompleted (flowId nps_props) (id_step nps_step) (Score n))
          then Fulfilled (MarkStepCompleted (flowId nps_props) (id_step nps_step) (Score n))
          else Rejected (MarkStepCompleted (flowId nps_props) (id_step nps_step) (Score n)))]"
    by blast
  from bspec [OF b m] have b7:
    "label (numberButtons (getScoreChooser nps_props nps_state nps_step) ! 6) = 7"
    "onClick (numberButtons (getScoreChooser nps_props nps_state nps_step) ! 6) all_fulfilled =
     [SetKeepCompletedFlowOpenDuringSession ''flow_nps'', SetScore 7,
      Invoked (MarkStepCompleted ''flow_nps'' ''nps-score'' (Score 7)),
      Fulfilled (MarkStepCompleted ''flow_nps'' ''nps-score'' (Score 7))]"
    using f by (simp_all add: p)
  from T g have r: "FrigadeNPSSurvey ''COMPLETED_FLOW'' nps_props (nps_flows ''NOT_STARTED_FLOW'' 0)
      (nps_opens False) nps_state =
     Inr (Some \<lparr> dismissButton_onClick = dismiss_onClick nps_props,
                 scoreChooser = Some (getScoreChooser nps_props nps_state nps_step),
                 scoreReason = None \<rparr>)"
    by blast
  show ?thesis using m b7 r by simp
qed

end
